theory Spec2Isabelle
  imports Complex_Main "HOL-Library.AList" "HOL-Library.Sublist"
begin

section \<open>Python values and containers\<close>

text \<open>
  The learning layer lives in \<^verbatim>\<open>factory/factory_config.py\<close> (classes
  \<^verbatim>\<open>PatternLearningSystem\<close> and \<^verbatim>\<open>ContinuousImprovementEngine\<close>) and in
  \<^verbatim>\<open>factory/inter_agent_learning_system.py\<close> (class
  \<^verbatim>\<open>InterAgentLearningCoordinator\<close>). Objects are records, the mutable attributes of
  \<^verbatim>\<open>self\<close> are passed and returned explicitly, \<^verbatim>\<open>datetime.now()\<close> is the argument
  \<open>now\<close> (microseconds). The ranking of remembered solutions computes in binary64
  floats, as the source does (section on floats below); the rates and reputations of the
  coordinator are read as real numbers, without rounding.
\<close>

datatype pyval =
  PyNone | PyBool bool | PyInt int | PyFloat real | PyStr string | PyList "pyval list"

text \<open>
  \<^verbatim>\<open>str.strip()\<close> removes leading and trailing whitespace; the characters below are
  those with \<^verbatim>\<open>isspace()\<close> true among the code points under 256.
\<close>

definition whitespace :: "char list" where
  "whitespace = [CHR 0x09, CHR 0x0A, CHR 0x0B, CHR 0x0C, CHR 0x0D, CHR 0x1C, CHR 0x1D,
                 CHR 0x1E, CHR 0x1F, CHR 0x20, CHR 0x85, CHR 0xA0]"

definition isspace :: "char \<Rightarrow> bool" where
  "isspace c = (c \<in> set whitespace)"

definition strip :: "string \<Rightarrow> string" where
  "strip s = rev (dropWhile isspace (rev (dropWhile isspace s)))"

text \<open>\<^verbatim>\<open>deque(maxlen=n).append(x)\<close>: a full deque drops its leftmost element.\<close>

definition deque_append :: "nat \<Rightarrow> 'a list \<Rightarrow> 'a \<Rightarrow> 'a list" where
  "deque_append maxlen xs x = (if length xs < maxlen then xs @ [x] else tl xs @ [x])"

text \<open>\<^verbatim>\<open>d.get(k, [])\<close> on a dictionary of lists.\<close>

definition get_list :: "('k \<rightharpoonup> 'v list) \<Rightarrow> 'k \<Rightarrow> 'v list" where
  "get_list d k = (case d k of None \<Rightarrow> [] | Some xs \<Rightarrow> xs)"

text \<open>The last \<open>n\<close> elements of a list, Python's \<^verbatim>\<open>xs[-n:]\<close> for \<open>n > 0\<close>.\<close>

definition last_n :: "nat \<Rightarrow> 'a list \<Rightarrow> 'a list" where
  "last_n n xs = drop (length xs - n) xs"

text \<open>
  \<^verbatim>\<open>sorted(..., key=f, reverse=True)\<close>: Python reverses, sorts stably in ascending
  order and reverses again, so equal keys keep their original order.
\<close>

definition sort_reverse :: "('a \<Rightarrow> real) \<Rightarrow> 'a list \<Rightarrow> 'a list" where
  "sort_reverse f xs = rev (sort_key f (rev xs))"

section \<open>Python floats\<close>

text \<open>
  A finite Python float is a binary64 number, here the real number it denotes. An
  arithmetic operation returns the exact result rounded to the nearest binary64 number,
  ties to the even significand. \<open>binade x\<close> is the exponent \<open>e\<close> with
  \<open>2 ^ e \<le> \<bar>x\<bar> < 2 ^ (e + 1)\<close>, not below \<open>-1022\<close> (subnormal numbers share the spacing of
  the lowest binade); \<open>ulp x\<close> is the spacing of the floats around \<open>x\<close>. Overflow,
  infinities and NaN are outside the model. A literal such as \<^verbatim>\<open>0.7\<close> is
  \<open>round_double (7 / 10)\<close>.
\<close>

definition pow2 :: "int \<Rightarrow> real" where
  "pow2 e = (if 0 \<le> e then 2 ^ nat e else 1 / 2 ^ nat (- e))"

primrec binade_up :: "nat \<Rightarrow> real \<Rightarrow> int" where
  "binade_up 0 x = 0"
| "binade_up (Suc n) x = (if x < 2 then 0 else 1 + binade_up n (x / 2))"

primrec binade_down :: "nat \<Rightarrow> real \<Rightarrow> int" where
  "binade_down 0 x = 0"
| "binade_down (Suc n) x = (if 1 \<le> x then 0 else binade_down n (2 * x) - 1)"

definition binade :: "real \<Rightarrow> int" where
  "binade x = (if 1 \<le> \<bar>x\<bar> then binade_up 1023 \<bar>x\<bar> else binade_down 1022 \<bar>x\<bar>)"

definition ulp :: "real \<Rightarrow> real" where
  "ulp x = pow2 (binade x - 52)"

definition round_even :: "real \<Rightarrow> int" where
  "round_even m =
     (let f = \<lfloor>m\<rfloor>
      in if m - of_int f < 1 / 2 then f
         else if 1 / 2 < m - of_int f then f + 1
         else if even f then f else f + 1)"

definition round_double :: "real \<Rightarrow> real" where
  "round_double x = of_int (round_even (x / ulp x)) * ulp x"

definition fadd :: "real \<Rightarrow> real \<Rightarrow> real" where
  "fadd x y = round_double (x + y)"

definition fsub :: "real \<Rightarrow> real \<Rightarrow> real" where
  "fsub x y = round_double (x - y)"

definition fmul :: "real \<Rightarrow> real \<Rightarrow> real" where
  "fmul x y = round_double (x * y)"

text \<open>True division, of two floats or of two integers: correctly rounded in both cases.\<close>

definition fdiv :: "real \<Rightarrow> real \<Rightarrow> real" where
  "fdiv x y = round_double (x / y)"

section \<open>PatternLearningSystem\<close>

text \<open>
  The argument of \<^verbatim>\<open>learn_from_deployment\<close> is a dictionary. A field is \<open>None\<close> when
  the key is absent. \<^verbatim>\<open>error_type\<close> and \<^verbatim>\<open>success\<close> are validated by the code, so
  they hold any Python value; \<^verbatim>\<open>solution\<close> is a string or \<^verbatim>\<open>None\<close>,
  \<^verbatim>\<open>execution_time\<close> a number or \<^verbatim>\<open>None\<close> when its key is present.
\<close>

record deployment_data =
  dd_error_type :: "pyval option"
  dd_solution :: "string option"
  dd_success :: "pyval option"
  dd_context :: "(string \<times> pyval) list"
  dd_execution_time :: "real option option"
  dd_timestamp :: "int option"

record learning_entry =
  entry_solution :: "string option"
  entry_success :: bool
  entry_timestamp :: int
  entry_context :: "(string \<times> pyval) list"
  entry_execution_time :: "real option"

record PatternLearningSystem =
  error_database :: "string \<rightharpoonup> learning_entry list"
  success_patterns :: "string \<rightharpoonup> learning_entry list"
  performance_metrics :: "string \<rightharpoonup> real option list"

definition max_patterns_per_error :: nat where
  "max_patterns_per_error = 50"

definition min_success_rate :: real where
  "min_success_rate = round_double (7 / 10)"

definition PatternLearningSystem_init :: PatternLearningSystem where
  "PatternLearningSystem_init =
     \<lparr>error_database = Map.empty, success_patterns = Map.empty,
      performance_metrics = Map.empty\<rparr>"

definition store_success_pattern ::
  "PatternLearningSystem \<Rightarrow> string \<Rightarrow> learning_entry \<Rightarrow> PatternLearningSystem" where
  "store_success_pattern self error_type entry =
     (let cur = get_list (success_patterns self) error_type;
          cur' = (if length cur \<ge> max_patterns_per_error then tl cur else cur)
      in self\<lparr>success_patterns := (success_patterns self)(error_type \<mapsto> cur' @ [entry])\<rparr>)"

definition store_error_pattern ::
  "PatternLearningSystem \<Rightarrow> string \<Rightarrow> learning_entry \<Rightarrow> PatternLearningSystem" where
  "store_error_pattern self error_type entry =
     (let cur = get_list (error_database self) error_type;
          cur' = (if length cur \<ge> max_patterns_per_error then tl cur else cur)
      in self\<lparr>error_database := (error_database self)(error_type \<mapsto> cur' @ [entry])\<rparr>)"

definition make_entry :: "int \<Rightarrow> deployment_data \<Rightarrow> bool \<Rightarrow> learning_entry" where
  "make_entry now dd success =
     \<lparr>entry_solution = dd_solution dd,
      entry_success = success,
      entry_timestamp = (case dd_timestamp dd of None \<Rightarrow> now | Some t \<Rightarrow> t),
      entry_context = dd_context dd,
      entry_execution_time = (case dd_execution_time dd of None \<Rightarrow> None | Some t \<Rightarrow> t)\<rparr>"

definition metric_key :: "string \<Rightarrow> bool \<Rightarrow> string" where
  "metric_key error_type success =
     (if success then error_type @ ''_success'' else error_type @ ''_failure'')"

definition update_metrics ::
  "PatternLearningSystem \<Rightarrow> string \<Rightarrow> bool \<Rightarrow> real option option \<Rightarrow> PatternLearningSystem" where
  "update_metrics self error_type success et =
     (case et of
        None \<Rightarrow> self
      | Some t \<Rightarrow>
          self\<lparr>performance_metrics := (performance_metrics self)
            (metric_key error_type success \<mapsto>
               deque_append 100 (get_list (performance_metrics self)
                 (metric_key error_type success)) t)\<rparr>)"

text \<open>
  The result is the returned boolean and the system after the call. Every
  \<^verbatim>\<open>return False\<close> of the source comes before the first mutation.
\<close>

definition learn_from_deployment ::
  "int \<Rightarrow> PatternLearningSystem \<Rightarrow> deployment_data \<Rightarrow> bool \<times> PatternLearningSystem" where
  "learn_from_deployment now self dd =
     (case dd_error_type dd of
        None \<Rightarrow> (False, self)
      | Some error_type \<Rightarrow>
         (case dd_success dd of
            None \<Rightarrow> (False, self)
          | Some success \<Rightarrow>
             (case success of
                PyBool b \<Rightarrow>
                  (case error_type of
                     PyStr k \<Rightarrow>
                       if strip k = [] then (False, self)
                       else
                         let entry = make_entry now dd b;
                             self1 = (if b then store_success_pattern self k entry
                                      else store_error_pattern self k entry)
                         in (True, update_metrics self1 k b (dd_execution_time dd))
                   | _ \<Rightarrow> (False, self))
              | _ \<Rightarrow> (False, self))))"

subsection \<open>Ranking remembered solutions\<close>

record solution_stats =
  st_count :: nat
  st_success_count :: nat
  st_total_execution_time :: real
  st_recent_count :: nat
  st_timestamps :: "int list"
  st_success_rate :: real
  st_avg_execution_time :: real
  st_recency_score :: real

definition default_stats :: solution_stats where
  "default_stats =
     \<lparr>st_count = 0, st_success_count = 0, st_total_execution_time = 0, st_recent_count = 0,
      st_timestamps = [], st_success_rate = 0, st_avg_execution_time = 0,
      st_recency_score = 0\<rparr>"

definition timedelta_days :: "int \<Rightarrow> int" where
  "timedelta_days d = d * 86400 * 1000000"

text \<open>
  \<^verbatim>\<open>if pattern.get('execution_time')\<close> holds for a number that is present and not
  zero.
\<close>

definition count_pattern :: "int \<Rightarrow> learning_entry \<Rightarrow> solution_stats \<Rightarrow> solution_stats" where
  "count_pattern cutoff_time pattern stats =
     stats\<lparr>st_count := st_count stats + 1,
           st_timestamps := st_timestamps stats @ [entry_timestamp pattern],
           st_success_count :=
             (if entry_success pattern then st_success_count stats + 1
              else st_success_count stats),
           st_total_execution_time :=
             (case entry_execution_time pattern of
                None \<Rightarrow> st_total_execution_time stats
              | Some t \<Rightarrow> if t \<noteq> 0 then fadd (st_total_execution_time stats) t
                          else st_total_execution_time stats),
           st_recent_count :=
             (if entry_timestamp pattern > cutoff_time then st_recent_count stats + 1
              else st_recent_count stats)\<rparr>"

definition lookup_stats :: "(string \<times> solution_stats) list \<Rightarrow> string \<Rightarrow> solution_stats" where
  "lookup_stats acc s = (case map_of acc s of None \<Rightarrow> default_stats | Some st \<Rightarrow> st)"

text \<open>
  One round of the loop over the patterns. The dictionary \<^verbatim>\<open>solution_stats\<close> keeps
  its keys in insertion order, so it is an association list.
\<close>

definition stats_step ::
  "int \<Rightarrow> (string \<times> solution_stats) list \<Rightarrow> learning_entry \<Rightarrow> (string \<times> solution_stats) list"
  where
  "stats_step cutoff_time acc pattern =
     (case entry_solution pattern of
        None \<Rightarrow> acc
      | Some solution \<Rightarrow>
          if solution = [] \<or> solution = ''unknown'' then acc
          else AList.update solution
                 (count_pattern cutoff_time pattern (lookup_stats acc solution)) acc)"

definition finalize_stats :: "solution_stats \<Rightarrow> solution_stats" where
  "finalize_stats stats =
     (if st_count stats > 0 then
        stats\<lparr>st_success_rate := fdiv (real (st_success_count stats)) (real (st_count stats)),
              st_avg_execution_time :=
                fdiv (st_total_execution_time stats) (real (st_count stats)),
              st_recency_score :=
                min (fdiv (real (st_recent_count stats)) (real (max (st_count stats) 1))) 1\<rparr>
      else
        stats\<lparr>st_success_rate := 0, st_avg_execution_time := 0, st_recency_score := 0\<rparr>)"

definition calculate_solution_stats ::
  "int \<Rightarrow> learning_entry list \<Rightarrow> (string \<times> solution_stats) list" where
  "calculate_solution_stats now patterns =
     (let cutoff_time = now - timedelta_days 30
      in map (\<lambda>(solution, stats). (solution, finalize_stats stats))
           (foldl (stats_step cutoff_time) [] patterns))"

record scored_solution =
  sc_solution :: string
  sc_score :: real
  sc_success_rate :: real
  sc_recency_score :: real
  sc_avg_execution_time :: real
  sc_count :: nat

definition score_solution :: "string \<times> solution_stats \<Rightarrow> scored_solution" where
  "score_solution p =
     (case p of (solution, stats) \<Rightarrow>
        let success_weight = round_double (6 / 10);
            recency_weight = round_double (3 / 10);
            performance_weight = round_double (1 / 10);
            avg_time = st_avg_execution_time stats;
            time_score = max 0 (fsub 1 (fdiv avg_time 3600));
            composite_score =
              fadd (fadd (fmul (st_success_rate stats) success_weight)
                         (fmul (st_recency_score stats) recency_weight))
                   (fmul time_score performance_weight)
        in \<lparr>sc_solution = solution, sc_score = composite_score,
            sc_success_rate = st_success_rate stats,
            sc_recency_score = st_recency_score stats,
            sc_avg_execution_time = avg_time, sc_count = st_count stats\<rparr>)"

definition select_best_solution ::
  "(string \<times> solution_stats) list \<Rightarrow> scored_solution option" where
  "select_best_solution solution_stats =
     (if solution_stats = [] then None
      else case sort_reverse sc_score (map score_solution solution_stats) of
             [] \<Rightarrow> None
           | best # _ \<Rightarrow> Some best)"

text \<open>
  When no solution is ranked, the source reaches its last log line, whose f-string
  subscripts \<^verbatim>\<open>None\<close>; the \<^verbatim>\<open>TypeError\<close> is caught and \<^verbatim>\<open>None\<close> is returned.
\<close>

definition suggest_solution :: "int \<Rightarrow> PatternLearningSystem \<Rightarrow> string \<Rightarrow> string option" where
  "suggest_solution now self error_type =
     (if error_database self error_type = None \<and> success_patterns self error_type = None
      then None
      else
        let error_patterns = get_list (error_database self) error_type;
            success_pats = get_list (success_patterns self) error_type;
            all_patterns = error_patterns @ success_pats
        in if all_patterns = [] then None
           else case select_best_solution (calculate_solution_stats now all_patterns) of
                  None \<Rightarrow> None
                | Some best_solution \<Rightarrow>
                    if sc_success_rate best_solution \<ge> min_success_rate
                    then Some (sc_solution best_solution)
                    else None)"

text \<open>A series of calls, each on the system the previous one left.\<close>

fun learn_all ::
  "int \<Rightarrow> PatternLearningSystem \<Rightarrow> deployment_data list \<Rightarrow> PatternLearningSystem" where
  "learn_all now self [] = self"
| "learn_all now self (dd # dds) = learn_all now (snd (learn_from_deployment now self dd)) dds"

subsection \<open>Reference notions for the ledger\<close>

text \<open>
  The entries that a series of calls records under key \<open>k\<close> with outcome \<open>b\<close>, in call
  order; the ledger that holds the entries of outcome \<open>b\<close>; and sample inputs.
\<close>

definition recorded :: "int \<Rightarrow> string \<Rightarrow> bool \<Rightarrow> deployment_data list \<Rightarrow> learning_entry list" where
  "recorded now k b dds =
     map (\<lambda>dd. make_entry now dd b)
       (filter (\<lambda>dd. dd_error_type dd = Some (PyStr k) \<and> dd_success dd = Some (PyBool b)
                     \<and> strip k \<noteq> []) dds)"

definition outcome_K :: "bool \<Rightarrow> deployment_data" where
  "outcome_K b = \<lparr>dd_error_type = Some (PyStr ''K''), dd_solution = Some ''S'',
      dd_success = Some (PyBool b), dd_context = [], dd_execution_time = None,
      dd_timestamp = None\<rparr>"

definition ledger_of :: "bool \<Rightarrow> PatternLearningSystem \<Rightarrow> string \<rightharpoonup> learning_entry list" where
  "ledger_of b self = (if b then success_patterns self else error_database self)"

definition blank_key :: deployment_data where
  "blank_key = \<lparr>dd_error_type = Some (PyStr '' ''), dd_solution = Some ''S'',
      dd_success = Some (PyBool True), dd_context = [], dd_execution_time = None,
      dd_timestamp = None\<rparr>"

subsection \<open>Reference notions for the ranking\<close>

text \<open>
  The history of a key is what \<^verbatim>\<open>suggest_solution\<close> reads: the failed entries followed
  by the successful ones. A solution is rankable when it is neither empty nor
  \<^verbatim>\<open>"unknown"\<close>. The three rates and the composite score are written here over the
  attempts of one solution, independently of the loop that accumulates them, in the
  float arithmetic of the source: execution times are added in the order of the entries.
\<close>

definition history :: "PatternLearningSystem \<Rightarrow> string \<Rightarrow> learning_entry list" where
  "history self k = get_list (error_database self) k @ get_list (success_patterns self) k"

definition rankable :: "string \<Rightarrow> bool" where
  "rankable s = (s \<noteq> [] \<and> s \<noteq> ''unknown'')"

definition attempts :: "string \<Rightarrow> learning_entry list \<Rightarrow> learning_entry list" where
  "attempts s ps = filter (\<lambda>p. entry_solution p = Some s) ps"

definition candidates :: "learning_entry list \<Rightarrow> string list" where
  "candidates ps =
     remdups (concat (map (\<lambda>p. case entry_solution p of
                                  None \<Rightarrow> []
                                | Some s \<Rightarrow> if rankable s then [s] else []) ps))"

definition success_rate_of :: "string \<Rightarrow> learning_entry list \<Rightarrow> real" where
  "success_rate_of s ps =
     fdiv (real (length (filter entry_success (attempts s ps)))) (real (length (attempts s ps)))"

definition recency_score_of :: "int \<Rightarrow> string \<Rightarrow> learning_entry list \<Rightarrow> real" where
  "recency_score_of now s ps =
     min (fdiv (real (length (filter (\<lambda>p. entry_timestamp p > now - timedelta_days 30)
                                (attempts s ps))))
               (real (length (attempts s ps)))) 1"

definition total_time_of :: "string \<Rightarrow> learning_entry list \<Rightarrow> real" where
  "total_time_of s ps =
     foldl (\<lambda>total p. case entry_execution_time p of
                         None \<Rightarrow> total
                       | Some t \<Rightarrow> if t \<noteq> 0 then fadd total t else total)
       0 (attempts s ps)"

definition avg_time_of :: "string \<Rightarrow> learning_entry list \<Rightarrow> real" where
  "avg_time_of s ps = fdiv (total_time_of s ps) (real (length (attempts s ps)))"

definition composite :: "int \<Rightarrow> string \<Rightarrow> learning_entry list \<Rightarrow> real" where
  "composite now s ps =
     fadd (fadd (fmul (success_rate_of s ps) (round_double (6 / 10)))
                (fmul (recency_score_of now s ps) (round_double (3 / 10))))
          (fmul (max 0 (fsub 1 (fdiv (avg_time_of s ps) 3600))) (round_double (1 / 10)))"

definition four_outcomes :: PatternLearningSystem where
  "four_outcomes = learn_all 0 PatternLearningSystem_init
     [outcome_K True, outcome_K True, outcome_K True, outcome_K False]"

section \<open>ContinuousImprovementEngine\<close>

datatype RiskLevel = LOW | MEDIUM | HIGH | CRITICAL

datatype OptimizationType = PERFORMANCE | MEMORY | RELIABILITY | SECURITY

fun risk_value :: "RiskLevel \<Rightarrow> string" where
  "risk_value LOW = ''low''"
| "risk_value MEDIUM = ''medium''"
| "risk_value HIGH = ''high''"
| "risk_value CRITICAL = ''critical''"

fun type_value :: "OptimizationType \<Rightarrow> string" where
  "type_value PERFORMANCE = ''performance''"
| "type_value MEMORY = ''memory''"
| "type_value RELIABILITY = ''reliability''"
| "type_value SECURITY = ''security''"

text \<open>
  A piece of text is a literal or an f-string around one number, kept unrendered as prefix,
  number, format specification and suffix.
\<close>

datatype pytext = Literal string | FString string real string string

text \<open>
  A suggestion is a dictionary. A field is \<open>None\<close> when its key is absent;
  \<^verbatim>\<open>type\<close> and \<^verbatim>\<open>risk_level\<close> are also \<open>None\<close> when the value is not a member of
  the enumeration, which the code treats alike (\<^verbatim>\<open>isinstance\<close> fails, the comparison
  with \<^verbatim>\<open>RiskLevel.LOW\<close> is false, \<^verbatim>\<open>.value\<close> raises). The metric dictionaries map
  names to numbers.
\<close>

record suggestion =
  sg_type :: "OptimizationType option"
  sg_title :: "string option"
  sg_description :: "pytext option"
  sg_risk_level :: "RiskLevel option"
  sg_suggested_action :: "string option"
  sg_confidence :: "real option"
  sg_metrics :: "string \<rightharpoonup> real"

record metrics =
  m_timestamp :: int
  m_memory_usage :: "string \<rightharpoonup> real"
  m_response_times :: "string \<rightharpoonup> real"
  m_error_rates :: "string \<rightharpoonup> real"

record performance_entry =
  pe_response_time :: "real option"
  pe_success :: "bool option"

record analysis_entry =
  an_timestamp :: int
  an_metrics :: metrics
  an_suggestions_generated :: nat
  an_analysis_type :: string

record applied_entry =
  ap_timestamp :: int
  ap_title :: "string option"
  ap_type :: string
  ap_risk_level :: string
  ap_confidence :: real
  ap_description :: pytext
  ap_status :: string

record ContinuousImprovementEngine =
  improvement_log :: "analysis_entry list"
  optimization_suggestions :: "suggestion list"
  applied_improvements :: "applied_entry list"
  performance_history :: "performance_entry list"

definition ContinuousImprovementEngine_init :: ContinuousImprovementEngine where
  "ContinuousImprovementEngine_init =
     \<lparr>improvement_log = [], optimization_suggestions = [], applied_improvements = [],
      performance_history = []\<rparr>"

definition memory_suggestion :: "(string \<rightharpoonup> real) \<Rightarrow> real \<Rightarrow> suggestion" where
  "memory_suggestion memory_usage memory_mb =
     \<lparr>sg_type = Some MEMORY,
      sg_title = Some ''High Memory Usage Detected'',
      sg_description = Some (FString ''Process using '' memory_mb ''.1f'' ''MB of memory''),
      sg_risk_level = Some MEDIUM,
      sg_suggested_action =
        Some ''Consider optimizing memory usage or increasing available memory'',
      sg_confidence = Some (8 / 10),
      sg_metrics = memory_usage\<rparr>"

definition response_suggestion :: "(string \<rightharpoonup> real) \<Rightarrow> real \<Rightarrow> suggestion" where
  "response_suggestion response_times avg_response =
     \<lparr>sg_type = Some PERFORMANCE,
      sg_title = Some ''Slow Response Times'',
      sg_description = Some (FString ''Average response time: '' avg_response ''.2f'' ''s''),
      sg_risk_level = Some LOW,
      sg_suggested_action =
        Some ''Consider caching frequently accessed data or optimizing algorithms'',
      sg_confidence = Some (7 / 10),
      sg_metrics = response_times\<rparr>"

definition error_suggestion :: "(string \<rightharpoonup> real) \<Rightarrow> real \<Rightarrow> suggestion" where
  "error_suggestion error_rates error_rate =
     \<lparr>sg_type = Some RELIABILITY,
      sg_title = Some ''High Error Rate'',
      sg_description = Some (FString ''Error rate: '' error_rate ''.2%'' ''''),
      sg_risk_level = Some HIGH,
      sg_suggested_action =
        Some ''Review error patterns and implement additional error handling'',
      sg_confidence = Some (9 / 10),
      sg_metrics = error_rates\<rparr>"

definition cleanup_suggestion :: "nat \<Rightarrow> suggestion" where
  "cleanup_suggestion n =
     \<lparr>sg_type = Some MEMORY,
      sg_title = Some ''Suggestion Cleanup'',
      sg_description = Some (Literal ''Accumulated many optimization suggestions''),
      sg_risk_level = Some LOW,
      sg_suggested_action = Some ''Clean up old optimization suggestions to free memory'',
      sg_confidence = Some (6 / 10),
      sg_metrics = [''suggestion_count'' \<mapsto> real n]\<rparr>"

text \<open>The result is the returned list and the engine after the call.\<close>

definition generate_optimization_suggestions ::
  "ContinuousImprovementEngine \<Rightarrow> metrics
     \<Rightarrow> suggestion list \<times> ContinuousImprovementEngine" where
  "generate_optimization_suggestions self metrics =
     (let memory_usage = m_memory_usage metrics;
          s1 = (case memory_usage ''rss_mb'' of
                  None \<Rightarrow> []
                | Some memory_mb \<Rightarrow>
                    if memory_mb > 500 then [memory_suggestion memory_usage memory_mb] else []);
          response_times = m_response_times metrics;
          s2 = (case response_times ''average'' of
                  None \<Rightarrow> []
                | Some avg_response \<Rightarrow>
                    if avg_response > 30 then [response_suggestion response_times avg_response]
                    else []);
          error_rates = m_error_rates metrics;
          s3 = (case error_rates ''recent_error_rate'' of
                  None \<Rightarrow> []
                | Some error_rate \<Rightarrow>
                    if error_rate > 1 / 10 then [error_suggestion error_rates error_rate]
                    else []);
          s4 = (if length (optimization_suggestions self) > 10
                then [cleanup_suggestion (length (optimization_suggestions self))] else []);
          suggestions = s1 @ s2 @ s3 @ s4
      in (suggestions,
          self\<lparr>optimization_suggestions := optimization_suggestions self @ suggestions\<rparr>))"

definition apply_memory_optimization ::
  "ContinuousImprovementEngine \<Rightarrow> suggestion \<Rightarrow> bool \<times> ContinuousImprovementEngine" where
  "apply_memory_optimization self suggestion =
     (if length (performance_history self) > 800
      then (True, self\<lparr>performance_history := last_n 500 (performance_history self)\<rparr>)
      else if length (improvement_log self) > 100
      then (True, self\<lparr>improvement_log := last_n 50 (improvement_log self)\<rparr>)
      else (True, self))"

definition apply_improvement ::
  "ContinuousImprovementEngine \<Rightarrow> suggestion \<Rightarrow> bool \<times> ContinuousImprovementEngine" where
  "apply_improvement self suggestion =
     (case sg_type suggestion of
        None \<Rightarrow> (False, self)
      | Some MEMORY \<Rightarrow> apply_memory_optimization self suggestion
      | Some PERFORMANCE \<Rightarrow> (True, self)
      | Some RELIABILITY \<Rightarrow> (True, self)
      | Some SECURITY \<Rightarrow> (True, self))"

text \<open>
  \<^verbatim>\<open>log_improvement\<close> builds the whole entry before it appends; \<^verbatim>\<open>.value\<close> on a
  \<^verbatim>\<open>type\<close> or \<^verbatim>\<open>risk_level\<close> that is no enumeration member raises, the exception is
  caught and nothing is logged.
\<close>

definition make_log_entry ::
  "int \<Rightarrow> suggestion \<Rightarrow> OptimizationType \<Rightarrow> RiskLevel \<Rightarrow> applied_entry" where
  "make_log_entry now suggestion t r =
     \<lparr>ap_timestamp = now,
      ap_title = sg_title suggestion,
      ap_type = type_value t,
      ap_risk_level = risk_value r,
      ap_confidence = (case sg_confidence suggestion of None \<Rightarrow> 0 | Some c \<Rightarrow> c),
      ap_description = (case sg_description suggestion of None \<Rightarrow> Literal [] | Some d \<Rightarrow> d),
      ap_status = ''applied''\<rparr>"

definition log_improvement ::
  "int \<Rightarrow> ContinuousImprovementEngine \<Rightarrow> suggestion \<Rightarrow> ContinuousImprovementEngine" where
  "log_improvement now self suggestion =
     (case sg_type suggestion of
        None \<Rightarrow> self
      | Some t \<Rightarrow>
         (case sg_risk_level suggestion of
            None \<Rightarrow> self
          | Some r \<Rightarrow>
             let applied = applied_improvements self @ [make_log_entry now suggestion t r]
             in self\<lparr>applied_improvements :=
                       (if length applied > 100 then last_n 100 applied else applied)\<rparr>))"

record detail =
  dt_title :: string
  dt_success :: bool
  dt_error :: "string option"
  dt_risk_level :: string

record results =
  implemented :: nat
  skipped :: nat
  failed :: nat
  details :: "detail list"

definition results_init :: results where
  "results_init = \<lparr>implemented = 0, skipped = 0, failed = 0, details = []\<rparr>"

text \<open>
  The members of a batch passed the filter \<^verbatim>\<open>risk_level == RiskLevel.LOW\<close>, so
  \<^verbatim>\<open>.value\<close> on their risk level does not raise; \<open>risk_text\<close> is that value.
\<close>

definition risk_text :: "suggestion \<Rightarrow> string" where
  "risk_text suggestion =
     (case sg_risk_level suggestion of None \<Rightarrow> ''unknown'' | Some r \<Rightarrow> risk_value r)"

text \<open>The \<^verbatim>\<open>except\<close> branch inside the loop.\<close>

definition record_exception :: "results \<Rightarrow> suggestion \<Rightarrow> string \<Rightarrow> results" where
  "record_exception res suggestion e =
     res\<lparr>failed := failed res + 1,
         details := details res @
           [\<lparr>dt_title = (case sg_title suggestion of None \<Rightarrow> ''unknown'' | Some t \<Rightarrow> t),
             dt_success = False, dt_error = Some e, dt_risk_level = risk_text suggestion\<rparr>]\<rparr>"

text \<open>\<^verbatim>\<open>results['details'].append(...)\<close>, where \<^verbatim>\<open>suggestion['title']\<close> may raise.\<close>

definition record_detail :: "results \<Rightarrow> suggestion \<Rightarrow> bool \<Rightarrow> results" where
  "record_detail res suggestion success =
     (case sg_title suggestion of
        None \<Rightarrow> record_exception res suggestion ''KeyError''
      | Some t \<Rightarrow>
          res\<lparr>details := details res @
            [\<lparr>dt_title = t, dt_success = success, dt_error = None,
              dt_risk_level = risk_text suggestion\<rparr>]\<rparr>)"

text \<open>One round of the loop over the batch; \<^verbatim>\<open>list.remove\<close> raises on a missing element.\<close>

definition improve_one ::
  "int \<Rightarrow> ContinuousImprovementEngine \<times> results \<Rightarrow> suggestion
     \<Rightarrow> ContinuousImprovementEngine \<times> results" where
  "improve_one now st suggestion =
     (case st of (self, res) \<Rightarrow>
       (case apply_improvement self suggestion of (success, self1) \<Rightarrow>
          if success then
            let res1 = res\<lparr>implemented := implemented res + 1\<rparr>;
                self2 = log_improvement now self1 suggestion
            in if suggestion \<in> set (optimization_suggestions self2)
               then (self2\<lparr>optimization_suggestions :=
                             remove1 suggestion (optimization_suggestions self2)\<rparr>,
                     record_detail res1 suggestion success)
               else (self2, record_exception res1 suggestion ''ValueError'')
          else (self1, record_detail (res\<lparr>failed := failed res + 1\<rparr>) suggestion success)))"

text \<open>The second loop, \<^verbatim>\<open># Remove processed suggestions\<close>.\<close>

definition remove_processed ::
  "ContinuousImprovementEngine \<Rightarrow> suggestion \<Rightarrow> ContinuousImprovementEngine" where
  "remove_processed self suggestion =
     (if suggestion \<in> set (optimization_suggestions self)
      then self\<lparr>optimization_suggestions := remove1 suggestion (optimization_suggestions self)\<rparr>
      else self)"

definition implement_improvements ::
  "int \<Rightarrow> ContinuousImprovementEngine \<Rightarrow> results \<times> ContinuousImprovementEngine" where
  "implement_improvements now self =
     (let low_risk_suggestions =
            filter (\<lambda>s. sg_risk_level s = Some LOW) (optimization_suggestions self)
      in case foldl (improve_one now) (self, results_init) (take 5 low_risk_suggestions) of
           (self1, res) \<Rightarrow>
             (res, foldl remove_processed self1 (take (implemented res) low_risk_suggestions)))"

text \<open>Cycles of suggestion generation and implementation.\<close>

datatype engine_op = Generate metrics | Implement int

fun engine_step :: "ContinuousImprovementEngine \<Rightarrow> engine_op \<Rightarrow> ContinuousImprovementEngine"
  where
  "engine_step self (Generate m) = snd (generate_optimization_suggestions self m)"
| "engine_step self (Implement now) = snd (implement_improvements now self)"

definition run_engine ::
  "ContinuousImprovementEngine \<Rightarrow> engine_op list \<Rightarrow> ContinuousImprovementEngine" where
  "run_engine self ops = foldl engine_step self ops"

subsection \<open>Sample metrics and engines\<close>

text \<open>
  Readings of 600 MB of memory and a mean response time of 45 s; the engine after six
  calls of \<^verbatim>\<open>generate_optimization_suggestions\<close> on these readings; an engine whose
  applied log is full.
\<close>

definition slow_and_heavy :: metrics where
  "slow_and_heavy =
     \<lparr>m_timestamp = 0, m_memory_usage = [''rss_mb'' \<mapsto> 600],
      m_response_times = [''average'' \<mapsto> 45], m_error_rates = Map.empty\<rparr>"

definition heavy :: suggestion where
  "heavy = memory_suggestion [''rss_mb'' \<mapsto> 600] 600"

definition slow :: suggestion where
  "slow = response_suggestion [''average'' \<mapsto> 45] 45"

definition twelve_pending :: ContinuousImprovementEngine where
  "twelve_pending =
     run_engine ContinuousImprovementEngine_init (replicate 6 (Generate slow_and_heavy))"

definition full_log :: ContinuousImprovementEngine where
  "full_log = ContinuousImprovementEngine_init
     \<lparr>applied_improvements := replicate 100 (make_log_entry 0 slow PERFORMANCE LOW)\<rparr>"

section \<open>InterAgentLearningCoordinator\<close>

datatype LearningType =
  EXPERIENCE_SHARING | PATTERN_RECOGNITION | COLLABORATIVE_PROBLEM_SOLVING
  | KNOWLEDGE_TRANSFER | PERFORMANCE_IMPROVEMENT | ERROR_PREVENTION

datatype AgentCapability =
  CODE_GENERATION | CODE_REVIEW | TESTING | DEBUGGING | DEPLOYMENT | MONITORING
  | SECURITY_SCANNING | PERFORMANCE_OPTIMIZATION

fun capability_value :: "AgentCapability \<Rightarrow> string" where
  "capability_value CODE_GENERATION = ''code_generation''"
| "capability_value CODE_REVIEW = ''code_review''"
| "capability_value TESTING = ''testing''"
| "capability_value DEBUGGING = ''debugging''"
| "capability_value DEPLOYMENT = ''deployment''"
| "capability_value MONITORING = ''monitoring''"
| "capability_value SECURITY_SCANNING = ''security_scanning''"
| "capability_value PERFORMANCE_OPTIMIZATION = ''performance_optimization''"

text \<open>
  An experience and its stored form \<^verbatim>\<open>to_dict()\<close> carry the same fields (the stored form
  holds the enumeration values as strings), so one record stands for both. The context
  dictionary maps names to strings.
\<close>

record LearningExperience =
  experience_id :: string
  exp_agent_id :: string
  exp_agent_type :: string
  learning_type :: LearningType
  capability :: AgentCapability
  exp_context :: "(string \<times> string) list"
  outcome :: "(string \<times> pyval) list"
  exp_success :: bool
  exp_confidence :: real
  lessons_learned :: "string list"
  exp_timestamp :: int
  metadata :: "(string \<times> pyval) list"

record AgentProfile =
  agent_id :: string
  agent_type :: string
  capabilities :: "AgentCapability list"
  experience_count :: nat
  success_rate :: real
  average_confidence :: real
  specializations :: "string list"
  collaboration_history :: "string list"
  last_active :: int
  reputation_score :: real

text \<open>
  The status of a transfer is a string in the source, documented as one of
  \<^verbatim>\<open>'pending'\<close>, \<^verbatim>\<open>'accepted'\<close>, \<^verbatim>\<open>'rejected'\<close> and \<^verbatim>\<open>'applied'\<close>; no other
  string is ever assigned.
\<close>

datatype transfer_status = Pending | Accepted | Rejected | Applied

text \<open>
  The content of a transfer has one of two shapes: the knowledge extracted from one
  experience (capability, context summary, lessons learned, success patterns, failure
  patterns, best practices, metadata), or the experiences selected by a request
  (experiences, capability focus, knowledge summary).
\<close>

datatype knowledge_content =
  ExtractedKnowledge string string "string list" pyval pyval pyval "(string \<times> pyval) list"
  | RequestedKnowledge "LearningExperience list" string string

text \<open>
  \<^verbatim>\<open>knowledge_type\<close> is always written as \<^verbatim>\<open>capability.value\<close>, so it is kept as the
  capability and \<^verbatim>\<open>AgentCapability(transfer.knowledge_type)\<close> does not raise.
\<close>

record KnowledgeTransfer =
  transfer_id :: string
  from_agent :: string
  to_agent :: string
  knowledge_type :: AgentCapability
  content :: knowledge_content
  confidence :: real
  timestamp :: int
  status :: transfer_status

record learning_metrics =
  total_experiences :: nat
  successful_transfers :: nat
  failed_transfers :: nat
  collaboration_count :: nat
  knowledge_base_size :: nat

text \<open>
  \<^verbatim>\<open>agent_profiles\<close> is a dictionary read in insertion order, so it is an association
  list. Saving to Redis never changes the state in memory (every failure of a save is
  caught), so the client is left out.
\<close>

record InterAgentLearningCoordinator =
  agent_profiles :: "(string \<times> AgentProfile) list"
  learning_experiences :: "LearningExperience list"
  knowledge_transfers :: "string \<rightharpoonup> KnowledgeTransfer"
  active_agents :: "string set"
  collaboration_network :: "string \<rightharpoonup> string list"
  metrics_of :: learning_metrics

definition InterAgentLearningCoordinator_init :: InterAgentLearningCoordinator where
  "InterAgentLearningCoordinator_init =
     \<lparr>agent_profiles = [], learning_experiences = [], knowledge_transfers = Map.empty,
      active_agents = {}, collaboration_network = Map.empty,
      metrics_of = \<lparr>total_experiences = 0, successful_transfers = 0, failed_transfers = 0,
                    collaboration_count = 0, knowledge_base_size = 0\<rparr>\<rparr>"

definition register_agent ::
  "int \<Rightarrow> InterAgentLearningCoordinator \<Rightarrow> string \<Rightarrow> string \<Rightarrow> AgentCapability list
     \<Rightarrow> AgentProfile \<times> InterAgentLearningCoordinator" where
  "register_agent now self aid atype caps =
     (let profile =
            \<lparr>agent_id = aid, agent_type = atype, capabilities = caps, experience_count = 0,
             success_rate = 0, average_confidence = 0, specializations = [],
             collaboration_history = [], last_active = now, reputation_score = 1 / 2\<rparr>
      in (profile,
          self\<lparr>agent_profiles := AList.update aid profile (agent_profiles self),
               active_agents := insert aid (active_agents self)\<rparr>))"

text \<open>The body of \<^verbatim>\<open>_update_agent_profile\<close> on the profile it has found.\<close>

definition updated_profile :: "int \<Rightarrow> AgentProfile \<Rightarrow> LearningExperience \<Rightarrow> AgentProfile" where
  "updated_profile now profile experience =
     (let count = experience_count profile + 1;
          observed = (if exp_success experience then 1 else 0);
          alpha = 3 / 10;
          rate = (if count = 1 then observed
                  else (1 - alpha) * success_rate profile + alpha * observed);
          conf = (if count = 1 then exp_confidence experience
                  else (1 - alpha) * average_confidence profile
                       + alpha * exp_confidence experience);
          reputation_boost =
            exp_confidence experience * (if exp_success experience then 1 else - (1 / 2));
          capability_str = capability_value (capability experience)
      in profile\<lparr>experience_count := count,
                 last_active := now,
                 success_rate := rate,
                 average_confidence := conf,
                 reputation_score :=
                   min 1 (max 0 (reputation_score profile + reputation_boost * (1 / 10))),
                 specializations :=
                   (if exp_success experience \<and> exp_confidence experience > 8 / 10
                       \<and> capability_str \<notin> set (specializations profile)
                    then specializations profile @ [capability_str]
                    else specializations profile)\<rparr>)"

definition update_agent_profile ::
  "int \<Rightarrow> InterAgentLearningCoordinator \<Rightarrow> string \<Rightarrow> LearningExperience
     \<Rightarrow> InterAgentLearningCoordinator" where
  "update_agent_profile now self aid experience =
     (case map_of (agent_profiles self) aid of
        None \<Rightarrow> self
      | Some profile \<Rightarrow>
          self\<lparr>agent_profiles :=
                 AList.update aid (updated_profile now profile experience)
                   (agent_profiles self)\<rparr>)"

text \<open>
  \<^verbatim>\<open>str.lower()\<close> on the letters A to Z, and \<^verbatim>\<open>str(context)\<close> for a dictionary of
  strings that need no escaping.
\<close>

definition lower_char :: "char \<Rightarrow> char" where
  "lower_char c =
     (case map_of (zip ''ABCDEFGHIJKLMNOPQRSTUVWXYZ'' ''abcdefghijklmnopqrstuvwxyz'') c of
        None \<Rightarrow> c | Some d \<Rightarrow> d)"

definition lower :: "string \<Rightarrow> string" where
  "lower s = map lower_char s"

fun join :: "string \<Rightarrow> string list \<Rightarrow> string" where
  "join sep [] = []"
| "join sep [x] = x"
| "join sep (x # y # ys) = x @ sep @ join sep (y # ys)"

definition repr :: "string \<Rightarrow> string" where
  "repr s = [CHR 0x27] @ s @ [CHR 0x27]"

definition str_dict :: "(string \<times> string) list \<Rightarrow> string" where
  "str_dict d = ''{'' @ join '', '' (map (\<lambda>(k, v). repr k @ '': '' @ repr v) d) @ ''}''"

definition find_relevant_agents ::
  "InterAgentLearningCoordinator \<Rightarrow> LearningExperience \<Rightarrow> string list" where
  "find_relevant_agents self experience =
     take 5
       (map fst
         (filter
           (\<lambda>(aid, profile).
              aid \<noteq> exp_agent_id experience \<and>
              (capability experience \<in> set (capabilities profile) \<or>
               (\<exists>spec \<in> set (map lower (specializations profile)).
                   sublist spec (lower (str_dict (exp_context experience)))) \<or>
               exp_agent_id experience \<in> set (get_list (collaboration_network self) aid)))
           (agent_profiles self)))"

definition summarize_context :: "(string \<times> string) list \<Rightarrow> string" where
  "summarize_context ctx =
     (let key_elements =
            (case map_of ctx ''task_type'' of None \<Rightarrow> [] | Some v \<Rightarrow> [''Task: '' @ v])
          @ (case map_of ctx ''complexity'' of None \<Rightarrow> [] | Some v \<Rightarrow> [''Complexity: '' @ v])
          @ (case map_of ctx ''domain'' of None \<Rightarrow> [] | Some v \<Rightarrow> [''Domain: '' @ v])
      in if key_elements = [] then ''General context'' else join '' | '' key_elements)"

definition outcome_get :: "(string \<times> pyval) list \<Rightarrow> string \<Rightarrow> pyval" where
  "outcome_get d k = (case map_of d k of None \<Rightarrow> PyList [] | Some v \<Rightarrow> v)"

definition extract_knowledge_content :: "LearningExperience \<Rightarrow> knowledge_content" where
  "extract_knowledge_content experience =
     ExtractedKnowledge
       (capability_value (capability experience))
       (summarize_context (exp_context experience))
       (lessons_learned experience)
       (outcome_get (outcome experience) ''success_patterns'')
       (outcome_get (outcome experience) ''failure_patterns'')
       (outcome_get (outcome experience) ''best_practices'')
       (metadata experience)"

text \<open>
  \<^verbatim>\<open>str(uuid.uuid4())\<close> is the argument \<open>uuid\<close>: \<open>uuid i\<close> is the identifier drawn by
  the \<open>i\<close>-th call within one operation. One round of the loop that creates the transfers:
\<close>

definition create_transfer ::
  "int \<Rightarrow> (nat \<Rightarrow> string) \<Rightarrow> LearningExperience \<Rightarrow> InterAgentLearningCoordinator
     \<Rightarrow> nat \<times> string \<Rightarrow> InterAgentLearningCoordinator" where
  "create_transfer now uuid experience self ia =
     (case ia of (i, aid) \<Rightarrow>
        if aid \<noteq> exp_agent_id experience then
          let transfer =
                \<lparr>transfer_id = uuid i,
                 from_agent = exp_agent_id experience,
                 to_agent = aid,
                 knowledge_type = capability experience,
                 content = extract_knowledge_content experience,
                 confidence = exp_confidence experience,
                 timestamp = now,
                 status = Pending\<rparr>
          in self\<lparr>knowledge_transfers := (knowledge_transfers self)(uuid i \<mapsto> transfer),
                  collaboration_network := (collaboration_network self)
                    (exp_agent_id experience \<mapsto>
                       get_list (collaboration_network self) (exp_agent_id experience) @ [aid])\<rparr>
        else self)"

definition share_learning_experience ::
  "int \<Rightarrow> (nat \<Rightarrow> string) \<Rightarrow> InterAgentLearningCoordinator \<Rightarrow> LearningExperience
     \<Rightarrow> bool \<times> InterAgentLearningCoordinator" where
  "share_learning_experience now uuid self experience =
     (let self1 = self\<lparr>learning_experiences :=
                         deque_append 10000 (learning_experiences self) experience\<rparr>;
          self2 = update_agent_profile now self1 (exp_agent_id experience) experience;
          relevant_agents = find_relevant_agents self2 experience;
          self3 = foldl (create_transfer now uuid experience) self2
                    (enumerate 0 relevant_agents);
          self4 = self3\<lparr>metrics_of := (metrics_of self3)
                    \<lparr>total_experiences := total_experiences (metrics_of self3) + 1,
                     knowledge_base_size := length (learning_experiences self3)\<rparr>\<rparr>
      in (True, self4))"

definition request_knowledge_transfer ::
  "int \<Rightarrow> (nat \<Rightarrow> string) \<Rightarrow> InterAgentLearningCoordinator \<Rightarrow> string \<Rightarrow> string
     \<Rightarrow> AgentCapability \<Rightarrow> string option \<times> InterAgentLearningCoordinator" where
  "request_knowledge_transfer now uuid self src dst cap =
     (let relevant_experiences =
            filter (\<lambda>exp. exp_agent_id exp = src \<and> capability exp = cap \<and>
                          exp_success exp \<and> exp_confidence exp > 7 / 10)
              (learning_experiences self)
      in if relevant_experiences = [] then (None, self)
         else
           let transfer =
                 \<lparr>transfer_id = uuid 0,
                  from_agent = src,
                  to_agent = dst,
                  knowledge_type = cap,
                  content = RequestedKnowledge (last_n 3 relevant_experiences)
                              (capability_value cap)
                              (''Knowledge transfer for '' @ capability_value cap
                                 @ '' from '' @ src),
                  confidence = sum_list (map exp_confidence relevant_experiences)
                                 / real (length relevant_experiences),
                  timestamp = now,
                  status = Pending\<rparr>;
               network = collaboration_network self;
               network' = (if dst \<notin> set (get_list network src)
                           then network(src \<mapsto> get_list network src @ [dst])
                           else network(src \<mapsto> get_list network src))
           in (Some (uuid 0),
               self\<lparr>knowledge_transfers := (knowledge_transfers self)(uuid 0 \<mapsto> transfer),
                    collaboration_network := network'\<rparr>))"

text \<open>
  \<^verbatim>\<open>_apply_knowledge_to_agent\<close> appends to the capability list of the receiver in place.
  \<^verbatim>\<open>register_agent\<close> keeps the list object it is given, so two agents registered with one
  and the same list object would share it; here every registration brings a list of its
  own, and the append changes the profile of the receiver only.
\<close>

definition apply_knowledge_to_agent ::
  "InterAgentLearningCoordinator \<Rightarrow> KnowledgeTransfer \<Rightarrow> InterAgentLearningCoordinator" where
  "apply_knowledge_to_agent self transfer =
     (case map_of (agent_profiles self) (to_agent transfer) of
        None \<Rightarrow> self
      | Some profile \<Rightarrow>
          let cap = knowledge_type transfer;
              profile' = profile
                \<lparr>capabilities :=
                   (if cap \<notin> set (capabilities profile) then capabilities profile @ [cap]
                    else capabilities profile),
                 specializations :=
                   (if capability_value cap \<notin> set (specializations profile)
                    then specializations profile @ [capability_value cap]
                    else specializations profile),
                 reputation_score := min 1 (reputation_score profile + 5 / 100)\<rparr>
          in self\<lparr>agent_profiles :=
                    AList.update (to_agent transfer) profile' (agent_profiles self)\<rparr>)"

definition transfer_experience ::
  "int \<Rightarrow> (nat \<Rightarrow> string) \<Rightarrow> KnowledgeTransfer \<Rightarrow> LearningExperience" where
  "transfer_experience now uuid transfer =
     \<lparr>experience_id = uuid 0,
      exp_agent_id = from_agent transfer,
      exp_agent_type = ''learning_coordinator'',
      learning_type = KNOWLEDGE_TRANSFER,
      capability = knowledge_type transfer,
      exp_context = [(''transfer_type'', ''knowledge_sharing''),
                     (''target_agent'', to_agent transfer),
                     (''knowledge_type'', capability_value (knowledge_type transfer))],
      outcome = [(''success'', PyBool True),
                 (''collaboration_benefit'', PyStr ''knowledge_shared''),
                 (''reputation_impact'', PyStr ''positive'')],
      exp_success = True,
      exp_confidence = confidence transfer,
      lessons_learned =
        [''Knowledge transfer for '' @ capability_value (knowledge_type transfer)
           @ '' was successful'',
         ''Collaboration between agents improves overall system performance'',
         ''High-confidence knowledge is more likely to be accepted''],
      exp_timestamp = now,
      metadata = [(''transfer_id'', PyStr (transfer_id transfer))]\<rparr>"

definition learn_from_transfer_success ::
  "int \<Rightarrow> (nat \<Rightarrow> string) \<Rightarrow> InterAgentLearningCoordinator \<Rightarrow> KnowledgeTransfer
     \<Rightarrow> InterAgentLearningCoordinator" where
  "learn_from_transfer_success now uuid self transfer =
     snd (share_learning_experience now (\<lambda>i. uuid (Suc i)) self
            (transfer_experience now uuid transfer))"

text \<open>
  The transfer is an object held by the dictionary: assigning its status changes the
  entry under \<^verbatim>\<open>transfer_id\<close>.
\<close>

definition process_knowledge_transfer ::
  "int \<Rightarrow> (nat \<Rightarrow> string) \<Rightarrow> InterAgentLearningCoordinator \<Rightarrow> string \<Rightarrow> bool
     \<Rightarrow> bool \<times> InterAgentLearningCoordinator" where
  "process_knowledge_transfer now uuid self tid accept =
     (case knowledge_transfers self tid of
        None \<Rightarrow> (False, self)
      | Some transfer0 \<Rightarrow>
          if accept then
            let transfer = transfer0\<lparr>status := Accepted\<rparr>;
                self1 = self\<lparr>knowledge_transfers := (knowledge_transfers self)(tid \<mapsto> transfer)\<rparr>;
                self2 = apply_knowledge_to_agent self1 transfer;
                self3 = learn_from_transfer_success now uuid self2 transfer;
                self4 = self3\<lparr>metrics_of := (metrics_of self3)
                          \<lparr>successful_transfers :=
                             successful_transfers (metrics_of self3) + 1\<rparr>\<rparr>
            in (True, self4)
          else
            let transfer = transfer0\<lparr>status := Rejected\<rparr>;
                self1 = self\<lparr>knowledge_transfers := (knowledge_transfers self)(tid \<mapsto> transfer)\<rparr>;
                self2 = self1\<lparr>metrics_of := (metrics_of self1)
                          \<lparr>failed_transfers := failed_transfers (metrics_of self1) + 1\<rparr>\<rparr>
            in (True, self2))"

definition cleanup_inactive_agents ::
  "int \<Rightarrow> InterAgentLearningCoordinator \<Rightarrow> int \<Rightarrow> nat \<times> InterAgentLearningCoordinator" where
  "cleanup_inactive_agents now self max_inactive_days =
     (let cutoff_time = now - timedelta_days max_inactive_days;
          inactive_agents =
            map fst (filter (\<lambda>(aid, profile). last_active profile < cutoff_time)
                       (agent_profiles self))
      in (length inactive_agents,
          self\<lparr>agent_profiles :=
                 filter (\<lambda>(aid, profile). aid \<notin> set inactive_agents) (agent_profiles self),
               active_agents := active_agents self - set inactive_agents\<rparr>))"

subsection \<open>Recommendations and the learning report\<close>













text \<open>The operations of the coordinator, and a run of them in order.\<close>

datatype coordinator_op =
  Register int string string "AgentCapability list"
  | Share int "nat \<Rightarrow> string" LearningExperience
  | Request int "nat \<Rightarrow> string" string string AgentCapability
  | Process int "nat \<Rightarrow> string" string bool
  | Cleanup int int

fun coordinator_step ::
  "InterAgentLearningCoordinator \<Rightarrow> coordinator_op \<Rightarrow> InterAgentLearningCoordinator" where
  "coordinator_step self (Register now aid atype caps) =
     snd (register_agent now self aid atype caps)"
| "coordinator_step self (Share now uuid experience) =
     snd (share_learning_experience now uuid self experience)"
| "coordinator_step self (Request now uuid src dst cap) =
     snd (request_knowledge_transfer now uuid self src dst cap)"
| "coordinator_step self (Process now uuid tid accept) =
     snd (process_knowledge_transfer now uuid self tid accept)"
| "coordinator_step self (Cleanup now days) = snd (cleanup_inactive_agents now self days)"

definition run_coordinator ::
  "InterAgentLearningCoordinator \<Rightarrow> coordinator_op list \<Rightarrow> InterAgentLearningCoordinator"
  where
  "run_coordinator self ops = foldl coordinator_step self ops"

subsection \<open>A sample run\<close>

text \<open>
  Agent \<^verbatim>\<open>A\<close> (testing) and agent \<^verbatim>\<open>B\<close> (code review) register, \<^verbatim>\<open>A\<close> shares three
  successful testing experiences at confidence 0.9, and a transfer of testing from \<^verbatim>\<open>A\<close>
  to \<^verbatim>\<open>B\<close> is requested. \<open>ids p\<close> is a supply of distinct identifiers that start with
  \<open>p\<close>.
\<close>

definition ids :: "string \<Rightarrow> nat \<Rightarrow> string" where
  "ids p i = p @ replicate i (CHR ''+'')"

definition testing_experience :: "nat \<Rightarrow> LearningExperience" where
  "testing_experience n =
     \<lparr>experience_id = ids ''e'' n, exp_agent_id = ''A'', exp_agent_type = ''TestingAgent'',
      learning_type = EXPERIENCE_SHARING, capability = TESTING,
      exp_context = [(''task_type'', ''integration_testing'')], outcome = [],
      exp_success = True, exp_confidence = 9 / 10, lessons_learned = [],
      exp_timestamp = 0, metadata = []\<rparr>"

definition after_sharing :: InterAgentLearningCoordinator where
  "after_sharing = run_coordinator InterAgentLearningCoordinator_init
     [Register 0 ''A'' ''TestingAgent'' [TESTING],
      Register 0 ''B'' ''CodeReviewAgent'' [CODE_REVIEW],
      Share 0 (ids ''s'') (testing_experience 0),
      Share 0 (ids ''s'') (testing_experience 1),
      Share 0 (ids ''s'') (testing_experience 2)]"

definition requested :: "string option \<times> InterAgentLearningCoordinator" where
  "requested = request_knowledge_transfer 0 (ids ''t'') after_sharing ''A'' ''B'' TESTING"

definition testing_transfer :: KnowledgeTransfer where
  "testing_transfer =
     \<lparr>transfer_id = ''t'', from_agent = ''A'', to_agent = ''B'', knowledge_type = TESTING,
      content = RequestedKnowledge
                  [testing_experience 0, testing_experience 1, testing_experience 2]
                  ''testing'' ''Knowledge transfer for testing from A'',
      confidence = 9 / 10, timestamp = 0, status = Pending\<rparr>"

definition profile_B :: AgentProfile where
  "profile_B =
     \<lparr>agent_id = ''B'', agent_type = ''CodeReviewAgent'', capabilities = [CODE_REVIEW],
      experience_count = 0, success_rate = 0, average_confidence = 0, specializations = [],
      collaboration_history = [], last_active = 0, reputation_score = 1 / 2\<rparr>"

definition registered :: InterAgentLearningCoordinator where
  "registered = run_coordinator InterAgentLearningCoordinator_init
     [Register 0 ''A'' ''TestingAgent'' [TESTING],
      Register 0 ''B'' ''CodeReviewAgent'' [CODE_REVIEW]]"

definition profile_A :: AgentProfile where
  "profile_A =
     \<lparr>agent_id = ''A'', agent_type = ''TestingAgent'', capabilities = [TESTING],
      experience_count = 0, success_rate = 0, average_confidence = 0, specializations = [],
      collaboration_history = [], last_active = 0, reputation_score = 1 / 2\<rparr>"


definition self_requested :: "string option \<times> InterAgentLearningCoordinator" where
  "self_requested = request_knowledge_transfer 0 (ids ''t'') after_sharing ''A'' ''A'' TESTING"

definition ghost_requested :: "string option \<times> InterAgentLearningCoordinator" where
  "ghost_requested =
     request_knowledge_transfer 0 (ids ''t'') after_sharing ''A'' ''ghost'' TESTING"

subsection \<open>Reference notions for the status of a transfer\<close>


subsection \<open>Reference notions for the ranges\<close>

text \<open>
  A number in \<open>[0, 1]\<close>; a profile whose success rate and reputation are such numbers; an
  operation whose shared confidence is one; a coordinator all of whose profiles have rates
  in range; a coordinator all of whose average confidences, stored experiences and
  transfers have a confidence in range; and an experience of confidence 2.
\<close>

definition unit_interval :: "real \<Rightarrow> bool" where
  "unit_interval x = (0 \<le> x \<and> x \<le> 1)"

definition rates_in_range :: "AgentProfile \<Rightarrow> bool" where
  "rates_in_range p = (unit_interval (success_rate p) \<and> unit_interval (reputation_score p))"

fun op_confidence_ok :: "coordinator_op \<Rightarrow> bool" where
  "op_confidence_ok (Share now uuid e) = unit_interval (exp_confidence e)"
| "op_confidence_ok _ = True"

definition profiles_in_range :: "InterAgentLearningCoordinator \<Rightarrow> bool" where
  "profiles_in_range self = (\<forall>p \<in> snd ` set (agent_profiles self). rates_in_range p)"

definition confidences_in_range :: "InterAgentLearningCoordinator \<Rightarrow> bool" where
  "confidences_in_range self =
     ((\<forall>p \<in> snd ` set (agent_profiles self). unit_interval (average_confidence p)) \<and>
      (\<forall>e \<in> set (learning_experiences self). unit_interval (exp_confidence e)) \<and>
      (\<forall>k t. knowledge_transfers self k = Some t \<longrightarrow> unit_interval (confidence t)))"

definition overconfident :: LearningExperience where
  "overconfident = (testing_experience 0)\<lparr>exp_confidence := 2\<rparr>"

subsection \<open>Series of shared experiences\<close>


definition share_op :: "int \<times> (nat \<Rightarrow> string) \<times> LearningExperience \<Rightarrow> coordinator_op" where
  "share_op s = (case s of (now, uuid, e) \<Rightarrow> Share now uuid e)"

definition shared_experience ::
  "int \<times> (nat \<Rightarrow> string) \<times> LearningExperience \<Rightarrow> LearningExperience" where
  "shared_experience s = (case s of (now, uuid, e) \<Rightarrow> e)"


section \<open>Properties of the pattern ledger\<close>

lemma last_n_step:
  "length cur \<le> n \<Longrightarrow> 0 < n \<Longrightarrow> (if length cur \<ge> n then tl cur else cur) @ [e] = last_n n (cur @ [e])"
  by (cases cur) (auto simp: last_n_def Suc_diff_le)

lemma last_n_length: "length (last_n n xs) \<le> n"
  by (simp add: last_n_def)

lemma last_n_append: "last_n n (last_n n xs @ ys) = last_n n (xs @ ys)"
proof (cases "length xs \<le> n")
  case True
  then show ?thesis by (simp add: last_n_def)
next
  case False
  then have "length xs + length ys - n = (length xs - n) + length ys" by arith
  with False show ?thesis by (simp add: last_n_def add.commute)
qed

lemma learn_success_patterns:
  "get_list (success_patterns (snd (learn_from_deployment now self dd))) k =
     (if dd_error_type dd = Some (PyStr k) \<and> dd_success dd = Some (PyBool True) \<and> strip k \<noteq> []
      then (let cur = get_list (success_patterns self) k in
            (if length cur \<ge> 50 then tl cur else cur) @ [make_entry now dd True])
      else get_list (success_patterns self) k)"
  by (auto simp: learn_from_deployment_def store_success_pattern_def store_error_pattern_def
      update_metrics_def get_list_def max_patterns_per_error_def Let_def
      split: option.splits pyval.splits)

lemma learn_error_database:
  "get_list (error_database (snd (learn_from_deployment now self dd))) k =
     (if dd_error_type dd = Some (PyStr k) \<and> dd_success dd = Some (PyBool False) \<and> strip k \<noteq> []
      then (let cur = get_list (error_database self) k in
            (if length cur \<ge> 50 then tl cur else cur) @ [make_entry now dd False])
      else get_list (error_database self) k)"
  by (auto simp: learn_from_deployment_def store_success_pattern_def store_error_pattern_def
      update_metrics_def get_list_def max_patterns_per_error_def Let_def
      split: option.splits pyval.splits)

lemma learn_all_success:
  "length (get_list (success_patterns self) k) \<le> 50 \<Longrightarrow>
   get_list (success_patterns (learn_all now self dds)) k =
     last_n 50 (get_list (success_patterns self) k @ recorded now k True dds)"
proof (induction dds arbitrary: self)
  case Nil
  then show ?case by (simp add: recorded_def last_n_def)
next
  case (Cons dd dds)
  let ?s = "snd (learn_from_deployment now self dd)"
  let ?cur = "get_list (success_patterns self) k"
  show ?case
  proof (cases "dd_error_type dd = Some (PyStr k) \<and> dd_success dd = Some (PyBool True) \<and> strip k \<noteq> []")
    case True
    have eq: "get_list (success_patterns ?s) k = last_n 50 (?cur @ [make_entry now dd True])"
      using True Cons.prems last_n_step[of ?cur 50 "make_entry now dd True"]
      by (simp add: learn_success_patterns Let_def)
    have len: "length (get_list (success_patterns ?s) k) \<le> 50"
      unfolding eq by (rule last_n_length)
    have rec: "recorded now k True (dd # dds) = make_entry now dd True # recorded now k True dds"
      using True by (simp add: recorded_def)
    show ?thesis
      using Cons.IH[OF len] by (simp add: eq rec last_n_append)
  next
    case False
    have eq: "get_list (success_patterns ?s) k = ?cur"
      using False by (auto simp: learn_success_patterns)
    have rec: "recorded now k True (dd # dds) = recorded now k True dds"
      using False by (auto simp: recorded_def)
    show ?thesis using Cons.IH[of ?s] Cons.prems by (simp add: eq rec)
  qed
qed

lemma learn_all_error:
  "length (get_list (error_database self) k) \<le> 50 \<Longrightarrow>
   get_list (error_database (learn_all now self dds)) k =
     last_n 50 (get_list (error_database self) k @ recorded now k False dds)"
proof (induction dds arbitrary: self)
  case Nil
  then show ?case by (simp add: recorded_def last_n_def)
next
  case (Cons dd dds)
  let ?s = "snd (learn_from_deployment now self dd)"
  let ?cur = "get_list (error_database self) k"
  show ?case
  proof (cases "dd_error_type dd = Some (PyStr k) \<and> dd_success dd = Some (PyBool False) \<and> strip k \<noteq> []")
    case True
    have eq: "get_list (error_database ?s) k = last_n 50 (?cur @ [make_entry now dd False])"
      using True Cons.prems last_n_step[of ?cur 50 "make_entry now dd False"]
      by (simp add: learn_error_database Let_def)
    have len: "length (get_list (error_database ?s) k) \<le> 50"
      unfolding eq by (rule last_n_length)
    have rec: "recorded now k False (dd # dds) = make_entry now dd False # recorded now k False dds"
      using True by (simp add: recorded_def)
    show ?thesis
      using Cons.IH[OF len] by (simp add: eq rec last_n_append)
  next
    case False
    have eq: "get_list (error_database ?s) k = ?cur"
      using False by (auto simp: learn_error_database)
    have rec: "recorded now k False (dd # dds) = recorded now k False dds"
      using False by (auto simp: recorded_def)
    show ?thesis using Cons.IH[of ?s] Cons.prems by (simp add: eq rec)
  qed
qed

lemma init_ledgers_empty:
  "get_list (success_patterns PatternLearningSystem_init) k = []"
  "get_list (error_database PatternLearningSystem_init) k = []"
  by (simp_all add: PatternLearningSystem_init_def get_list_def)

lemma length_last_n: "length (last_n n xs) = min n (length xs)"
  by (simp add: last_n_def)

text \<open>
  \<^bold>\<open>C2 (as amended).\<close> Each of the two ledgers is capped on its own. After any series
  of calls on a fresh system, \<^verbatim>\<open>success_patterns[k]\<close> holds exactly the last 50 successful
  entries recorded under \<open>k\<close> and \<^verbatim>\<open>error_database[k]\<close> exactly the last 50 failed
  ones, oldest evicted first; each holds \<open>min 50 n\<close> entries when \<open>n\<close> were recorded.
\<close>

theorem ledger_cap_fifo:
  "get_list (success_patterns (learn_all now PatternLearningSystem_init dds)) k
     = last_n 50 (recorded now k True dds) \<and>
   get_list (error_database (learn_all now PatternLearningSystem_init dds)) k
     = last_n 50 (recorded now k False dds) \<and>
   length (get_list (success_patterns (learn_all now PatternLearningSystem_init dds)) k)
     = min 50 (length (recorded now k True dds)) \<and>
   length (get_list (error_database (learn_all now PatternLearningSystem_init dds)) k)
     = min 50 (length (recorded now k False dds))"
  using learn_all_success[of PatternLearningSystem_init k now dds]
        learn_all_error[of PatternLearningSystem_init k now dds]
  by (simp add: init_ledgers_empty length_last_n)

lemma strip_K: "strip ''K'' = ''K''"
  by (simp add: strip_def isspace_def whitespace_def)

lemma recorded_mixed:
  "recorded now ''K'' b (replicate 50 (outcome_K True) @ replicate 50 (outcome_K False))
     = replicate 50 (make_entry now (outcome_K b) b)"
  by (cases b) (simp_all add: recorded_def outcome_K_def strip_K)

text \<open>
  \<^bold>\<open>C2, counterexample.\<close> One hundred records under the key \<^verbatim>\<open>K\<close>, fifty successes
  followed by fifty failures, leave one hundred entries under that key: fifty in each
  ledger.
\<close>

theorem ledger_cap_counterexample:
  "length (replicate 50 (outcome_K True) @ replicate 50 (outcome_K False)) = 100 \<and>
   length (get_list (success_patterns (learn_all 0 PatternLearningSystem_init
       (replicate 50 (outcome_K True) @ replicate 50 (outcome_K False)))) ''K'')
   + length (get_list (error_database (learn_all 0 PatternLearningSystem_init
       (replicate 50 (outcome_K True) @ replicate 50 (outcome_K False)))) ''K'') = 100"
  using learn_all_success[of PatternLearningSystem_init "''K''" 0
          "replicate 50 (outcome_K True) @ replicate 50 (outcome_K False)"]
        learn_all_error[of PatternLearningSystem_init "''K''" 0
          "replicate 50 (outcome_K True) @ replicate 50 (outcome_K False)"]
  by (simp add: init_ledgers_empty recorded_mixed last_n_def)

text \<open>
  \<^bold>\<open>C7 (as amended).\<close> A call whose key is missing, not a string, or blank (empty
  after \<^verbatim>\<open>strip()\<close>), or whose \<^verbatim>\<open>success\<close> is missing or not a boolean, returns
  \<^verbatim>\<open>False\<close> and leaves the whole system as it was. A call with a non-blank string key
  and a boolean \<^verbatim>\<open>success\<close> returns \<^verbatim>\<open>True\<close> and appends exactly one entry under that
  key, in the ledger of its outcome (after dropping the oldest entry of a full list); the
  other ledger and the other keys are unchanged.
\<close>

theorem learn_from_deployment_validation:
  "(((\<forall>k. dd_error_type dd \<noteq> Some (PyStr k)) \<or>
     (\<exists>k. dd_error_type dd = Some (PyStr k) \<and> strip k = []) \<or>
     (\<forall>b. dd_success dd \<noteq> Some (PyBool b)))
      \<longrightarrow> learn_from_deployment now self dd = (False, self)) \<and>
   (dd_error_type dd = Some (PyStr k) \<and> strip k \<noteq> [] \<and> dd_success dd = Some (PyBool b)
      \<longrightarrow> fst (learn_from_deployment now self dd) = True \<and>
          get_list (ledger_of b (snd (learn_from_deployment now self dd))) k
            = (if length (get_list (ledger_of b self) k) \<ge> 50
               then tl (get_list (ledger_of b self) k) else get_list (ledger_of b self) k)
              @ [make_entry now dd b] \<and>
          ledger_of (\<not> b) (snd (learn_from_deployment now self dd)) = ledger_of (\<not> b) self \<and>
          (\<forall>k'. k' \<noteq> k \<longrightarrow>
             ledger_of b (snd (learn_from_deployment now self dd)) k' = ledger_of b self k'))"
proof (intro conjI impI)
  assume "(\<forall>k. dd_error_type dd \<noteq> Some (PyStr k)) \<or>
     (\<exists>k. dd_error_type dd = Some (PyStr k) \<and> strip k = []) \<or>
     (\<forall>b. dd_success dd \<noteq> Some (PyBool b))"
  then show "learn_from_deployment now self dd = (False, self)"
    by (auto simp: learn_from_deployment_def split: option.splits pyval.splits)
next
  assume v: "dd_error_type dd = Some (PyStr k) \<and> strip k \<noteq> [] \<and> dd_success dd = Some (PyBool b)"
  then show "fst (learn_from_deployment now self dd) = True"
    by (simp add: learn_from_deployment_def Let_def)
  from v show "get_list (ledger_of b (snd (learn_from_deployment now self dd))) k
            = (if length (get_list (ledger_of b self) k) \<ge> 50
               then tl (get_list (ledger_of b self) k) else get_list (ledger_of b self) k)
              @ [make_entry now dd b]"
    by (cases b) (simp_all add: ledger_of_def learn_success_patterns learn_error_database Let_def)
  from v show "ledger_of (\<not> b) (snd (learn_from_deployment now self dd)) = ledger_of (\<not> b) self"
    by (cases b) (auto simp: ledger_of_def learn_from_deployment_def store_success_pattern_def
        store_error_pattern_def update_metrics_def Let_def split: option.splits)
  from v show "\<forall>k'. k' \<noteq> k \<longrightarrow>
             ledger_of b (snd (learn_from_deployment now self dd)) k' = ledger_of b self k'"
    by (cases b) (auto simp: ledger_of_def learn_from_deployment_def store_success_pattern_def
        store_error_pattern_def update_metrics_def Let_def split: option.splits)
qed

lemma strip_blank: "strip '' '' = []"
  by (simp add: strip_def isspace_def whitespace_def)

text \<open>
  \<^bold>\<open>C7, witness.\<close> A blank key is refused, the key \<^verbatim>\<open>K\<close> is recorded.
\<close>

theorem learn_from_deployment_validation_witness:
  "learn_from_deployment 0 PatternLearningSystem_init blank_key
     = (False, PatternLearningSystem_init) \<and>
   fst (learn_from_deployment 0 PatternLearningSystem_init (outcome_K True)) = True \<and>
   get_list (success_patterns (snd (learn_from_deployment 0 PatternLearningSystem_init
       (outcome_K True)))) ''K'' = [make_entry 0 (outcome_K True) True]"
  using learn_from_deployment_validation[where dd = blank_key and k = "''K''" and b = True
          and now = 0 and self = PatternLearningSystem_init]
        learn_from_deployment_validation[where dd = "outcome_K True" and k = "''K''"
          and b = True and now = 0 and self = PatternLearningSystem_init]
  by (simp add: blank_key_def outcome_K_def strip_blank strip_K ledger_of_def init_ledgers_empty)

text \<open>
  \<^bold>\<open>C7, counterexample.\<close> The key \<^verbatim>\<open>" "\<close> is a non-empty string and \<^verbatim>\<open>success\<close> is a
  boolean, yet the call returns \<^verbatim>\<open>False\<close>: the code strips whitespace before it tests
  for emptiness.
\<close>

theorem blank_key_counterexample:
  "dd_error_type blank_key = Some (PyStr '' '') \<and> '' '' \<noteq> [] \<and>
   dd_success blank_key = Some (PyBool True) \<and>
   learn_from_deployment 0 PatternLearningSystem_init blank_key
     = (False, PatternLearningSystem_init)"
  by (simp add: blank_key_def learn_from_deployment_def strip_blank)

section \<open>Properties of the ranking\<close>

lemma lookup_stats_step:
  "lookup_stats (stats_step c acc p) s =
     (if entry_solution p = Some s \<and> rankable s
      then count_pattern c p (lookup_stats acc s) else lookup_stats acc s)"
  by (auto simp: stats_step_def lookup_stats_def rankable_def update_conv' split: option.splits)

lemma keys_stats_step:
  "fst ` set (stats_step c acc p) =
     fst ` set acc \<union> (case entry_solution p of None \<Rightarrow> {}
                       | Some s \<Rightarrow> if rankable s then {s} else {})"
  by (auto simp: stats_step_def rankable_def dom_update split: option.splits)

lemma distinct_stats_step:
  "distinct (map fst acc) \<Longrightarrow> distinct (map fst (stats_step c acc p))"
  by (auto simp: stats_step_def distinct_update split: option.splits)

lemma lookup_stats_foldl:
  "rankable s \<Longrightarrow>
   lookup_stats (foldl (stats_step c) acc ps) s =
     foldl (\<lambda>st p. count_pattern c p st) (lookup_stats acc s) (attempts s ps)"
  by (induction ps arbitrary: acc) (simp_all add: attempts_def lookup_stats_step)

lemma keys_stats_foldl:
  "fst ` set (foldl (stats_step c) acc ps) = fst ` set acc \<union> set (candidates ps)"
proof (induction ps arbitrary: acc)
  case Nil
  then show ?case by (simp add: candidates_def)
next
  case (Cons p ps)
  have "set (candidates (p # ps)) =
          (case entry_solution p of None \<Rightarrow> {} | Some s \<Rightarrow> if rankable s then {s} else {})
            \<union> set (candidates ps)"
    by (auto simp: candidates_def split: option.splits)
  then show ?case
    using Cons.IH[of "stats_step c acc p"] by (simp add: keys_stats_step Un_assoc)
qed

lemma distinct_stats_foldl:
  "distinct (map fst acc) \<Longrightarrow> distinct (map fst (foldl (stats_step c) acc ps))"
  by (induction ps arbitrary: acc) (simp_all add: distinct_stats_step)

lemma count_foldl:
  "st_count (foldl (\<lambda>st p. count_pattern c p st) st xs) = st_count st + length xs"
  by (induction xs arbitrary: st) (simp_all add: count_pattern_def)

lemma success_count_foldl:
  "st_success_count (foldl (\<lambda>st p. count_pattern c p st) st xs)
     = st_success_count st + length (filter entry_success xs)"
  by (induction xs arbitrary: st) (simp_all add: count_pattern_def)

lemma recent_count_foldl:
  "st_recent_count (foldl (\<lambda>st p. count_pattern c p st) st xs)
     = st_recent_count st + length (filter (\<lambda>p. entry_timestamp p > c) xs)"
  by (induction xs arbitrary: st) (simp_all add: count_pattern_def)

lemma total_time_foldl:
  "st_total_execution_time (foldl (\<lambda>st p. count_pattern c p st) st xs)
     = foldl (\<lambda>total p. case entry_execution_time p of
                            None \<Rightarrow> total
                          | Some t \<Rightarrow> if t \<noteq> 0 then fadd total t else total)
         (st_total_execution_time st) xs"
  by (induction xs arbitrary: st) (simp_all add: count_pattern_def)

lemma attempts_candidate: "s \<in> set (candidates ps) \<longleftrightarrow> rankable s \<and> attempts s ps \<noteq> []"
  by (auto simp: candidates_def attempts_def filter_empty_conv split: option.splits if_splits)
     (metis)

lemma sort_reverse_best:
  "sort_reverse f xs = best # rest \<Longrightarrow> best \<in> set xs \<and> (\<forall>x \<in> set xs. f x \<le> f best)"
proof -
  assume a: "sort_reverse f xs = best # rest"
  let ?ys = "sort_key f (rev xs)"
  from a have ys: "?ys = rev rest @ [best]"
    unfolding sort_reverse_def by (metis rev.simps(2) rev_rev_ident)
  have "sorted (map f ?ys)" by simp
  then have "\<forall>x \<in> set (rev rest). f x \<le> f best"
    unfolding ys by (simp add: sorted_append)
  moreover have "set xs = set ?ys" by simp
  ultimately show ?thesis unfolding ys by auto
qed

lemma sort_reverse_Nil: "sort_reverse f xs = [] \<longleftrightarrow> xs = []"
proof -
  have "length (sort_reverse f xs) = length xs" by (simp add: sort_reverse_def)
  then show ?thesis by (metis length_0_conv)
qed

lemma select_best_solution_Some:
  "select_best_solution stats = Some best \<Longrightarrow>
     best \<in> score_solution ` set stats \<and>
     (\<forall>x \<in> set stats. sc_score (score_solution x) \<le> sc_score best)"
  using sort_reverse_best[of sc_score "map score_solution stats" best]
  by (auto simp: select_best_solution_def split: if_splits list.splits)

lemma select_best_solution_None:
  "select_best_solution stats = None \<longleftrightarrow> stats = []"
  by (auto simp: select_best_solution_def sort_reverse_Nil split: list.splits)

lemma finalized_entry:
  assumes "(s, st) \<in> set (calculate_solution_stats now ps)"
  shows "s \<in> set (candidates ps)"
    and "st_success_rate st = success_rate_of s ps"
    and "st_recency_score st = recency_score_of now s ps"
    and "st_avg_execution_time st = avg_time_of s ps"
proof -
  let ?c = "now - timedelta_days 30"
  let ?raw = "foldl (stats_step ?c) [] ps"
  from assms obtain r where r: "(s, r) \<in> set ?raw" and st: "st = finalize_stats r"
    by (auto simp: calculate_solution_stats_def)
  from r have "s \<in> fst ` set ?raw" by force
  then show cand: "s \<in> set (candidates ps)" by (simp add: keys_stats_foldl)
  then have rk: "rankable s" and ne: "attempts s ps \<noteq> []"
    by (simp_all add: attempts_candidate)
  have "distinct (map fst ?raw)" by (rule distinct_stats_foldl) simp
  with r have "map_of ?raw s = Some r" by simp
  then have "lookup_stats ?raw s = r" by (simp add: lookup_stats_def)
  then have req: "r = foldl (\<lambda>st p. count_pattern ?c p st) default_stats (attempts s ps)"
    using lookup_stats_foldl[OF rk, of ?c "[]" ps] by (simp add: lookup_stats_def)
  have cnt: "st_count r = length (attempts s ps)"
    unfolding req by (simp add: count_foldl default_stats_def)
  have pos: "st_count r > 0" using ne cnt by simp
  show "st_success_rate st = success_rate_of s ps"
    using pos unfolding st finalize_stats_def success_rate_of_def
    by (simp add: cnt) (simp add: req success_count_foldl default_stats_def)
  have m: "max (st_count r) 1 = st_count r" using pos by simp
  have rc: "st_recent_count r = length (filter (\<lambda>p. entry_timestamp p > ?c) (attempts s ps))"
    by (simp add: req recent_count_foldl default_stats_def)
  have "st_recency_score st
          = min (fdiv (real (st_recent_count r)) (real (max (st_count r) 1))) 1"
    using pos by (simp add: st finalize_stats_def)
  moreover have "max (length (attempts s ps)) 1 = length (attempts s ps)"
    using ne by (cases "attempts s ps") simp_all
  ultimately show "st_recency_score st = recency_score_of now s ps"
    unfolding rc cnt recency_score_of_def by simp
  have tt: "st_total_execution_time r = total_time_of s ps"
    by (simp add: req total_time_foldl default_stats_def total_time_of_def)
  show "st_avg_execution_time st = avg_time_of s ps"
    using pos by (simp add: st finalize_stats_def avg_time_of_def tt cnt)
qed

lemma finalized_keys:
  "fst ` set (calculate_solution_stats now ps) = set (candidates ps)"
proof -
  have "fst ` set (calculate_solution_stats now ps)
          = fst ` set (foldl (stats_step (now - timedelta_days 30)) [] ps)"
    by (force simp: calculate_solution_stats_def)
  then show ?thesis by (simp add: keys_stats_foldl)
qed

lemma score_entry:
  assumes "(s, st) \<in> set (calculate_solution_stats now ps)"
  shows "sc_solution (score_solution (s, st)) = s"
    and "sc_success_rate (score_solution (s, st)) = success_rate_of s ps"
    and "sc_score (score_solution (s, st)) = composite now s ps"
  using finalized_entry[OF assms]
  by (simp_all add: score_solution_def composite_def Let_def)

text \<open>
  \<^bold>\<open>C4.\<close> The solutions ranked for a key are those of its recorded entries that are
  neither empty nor \<^verbatim>\<open>"unknown"\<close>. A returned solution is one of them, its composite
  \<open>0.6 * success_rate + 0.3 * recency_score + 0.1 * max 0 (1 - avg_time / 3600)\<close>,
  computed in float arithmetic as the source computes it, is the largest, and its success
  rate is at least the float \<open>0.7\<close>. When \<^verbatim>\<open>None\<close> is returned, either nothing is ranked
  or a solution of largest composite has a success rate under \<open>0.7\<close>. A key with no
  recorded history gives \<^verbatim>\<open>None\<close>.
\<close>

theorem suggest_solution_ranking:
  "(suggest_solution now self k = Some s \<longrightarrow>
      s \<in> set (candidates (history self k)) \<and>
      (\<forall>t \<in> set (candidates (history self k)).
          composite now t (history self k) \<le> composite now s (history self k)) \<and>
      success_rate_of s (history self k) \<ge> round_double (7 / 10)) \<and>
   (suggest_solution now self k = None \<longrightarrow>
      candidates (history self k) = [] \<or>
      (\<exists>s \<in> set (candidates (history self k)).
          (\<forall>t \<in> set (candidates (history self k)).
              composite now t (history self k) \<le> composite now s (history self k)) \<and>
          success_rate_of s (history self k) < round_double (7 / 10))) \<and>
   (error_database self k = None \<and> success_patterns self k = None \<longrightarrow>
      suggest_solution now self k = None)"
proof (intro conjI impI)
  let ?H = "history self k"
  let ?stats = "calculate_solution_stats now ?H"
  have top: "s' \<in> set (candidates ?H) \<and>
        (\<forall>t \<in> set (candidates ?H). composite now t ?H \<le> composite now s' ?H) \<and>
        sc_success_rate best = success_rate_of s' ?H"
    if b: "select_best_solution ?stats = Some best" and s': "s' = sc_solution best"
    for best s'
  proof -
    from select_best_solution_Some[OF b] obtain e
      where e: "e \<in> set ?stats" and be: "best = score_solution e"
        and mx: "\<forall>x \<in> set ?stats. sc_score (score_solution x) \<le> sc_score best"
      by auto
    obtain s0 st where est: "e = (s0, st)" by (cases e)
    have s0: "s' = s0" using score_entry(1)[of s0 st now ?H] e est be s' by simp
    have c1: "s' \<in> set (candidates ?H)"
      using finalized_entry(1)[of s0 st now ?H] e est s0 by simp
    have sc: "sc_score best = composite now s' ?H"
      using score_entry(3)[of s0 st now ?H] e est be s0 by simp
    have sr: "sc_success_rate best = success_rate_of s' ?H"
      using score_entry(2)[of s0 st now ?H] e est be s0 by simp
    have "composite now t ?H \<le> composite now s' ?H" if t: "t \<in> set (candidates ?H)" for t
    proof -
      from t have "t \<in> fst ` set ?stats" by (simp add: finalized_keys)
      then obtain tst where tt: "(t, tst) \<in> set ?stats" by auto
      from mx tt have "sc_score (score_solution (t, tst)) \<le> sc_score best" by blast
      then show ?thesis using score_entry(3)[OF tt] sc by simp
    qed
    with c1 sr show ?thesis by blast
  qed
  {
    assume a: "suggest_solution now self k = Some s"
    then obtain best where b: "select_best_solution ?stats = Some best"
      and s: "s = sc_solution best" and r: "sc_success_rate best \<ge> min_success_rate"
      by (auto simp: suggest_solution_def history_def Let_def
          split: if_splits option.splits)
    from top[OF b s] r
    show "s \<in> set (candidates ?H)"
      and "\<forall>t \<in> set (candidates ?H). composite now t ?H \<le> composite now s ?H"
      and "success_rate_of s ?H \<ge> round_double (7 / 10)"
      by (simp_all add: min_success_rate_def)
  }
  {
    assume a: "suggest_solution now self k = None"
    show "candidates ?H = [] \<or>
      (\<exists>s \<in> set (candidates ?H).
          (\<forall>t \<in> set (candidates ?H). composite now t ?H \<le> composite now s ?H) \<and>
          success_rate_of s ?H < round_double (7 / 10))"
    proof (cases "select_best_solution ?stats")
      case None
      then have "?stats = []" by (simp add: select_best_solution_None)
      then have "set (candidates ?H) = {}"
        using finalized_keys[of now ?H] by simp
      then show ?thesis by simp
    next
      case (Some best)
      have ne: "candidates ?H \<noteq> []"
        using top[OF Some refl] by auto
      then have hne: "?H \<noteq> []" by (auto simp: candidates_def)
      then have "\<not> (error_database self k = None \<and> success_patterns self k = None)"
        by (auto simp: history_def get_list_def)
      with a Some hne have "\<not> sc_success_rate best \<ge> min_success_rate"
        by (auto simp: suggest_solution_def history_def Let_def split: if_splits)
      with top[OF Some refl] show ?thesis
        by (auto simp: min_success_rate_def)
    qed
  }
  {
    assume "error_database self k = None \<and> success_patterns self k = None"
    then show "suggest_solution now self k = None"
      by (simp add: suggest_solution_def)
  }
qed

subsection \<open>Evaluating float operations\<close>

lemma binade_up_numeral:
  "binade_up (numeral k) x = (if x < 2 then 0 else 1 + binade_up (pred_numeral k) (x / 2))"
  by (simp add: numeral_eq_Suc)

lemma binade_down_numeral:
  "binade_down (numeral k) x =
     (if 1 \<le> x then 0 else binade_down (pred_numeral k) (2 * x) - 1)"
  by (simp add: numeral_eq_Suc)

lemmas double_eval =
  round_double_def ulp_def binade_def binade_up_numeral binade_down_numeral pow2_def
  round_even_def Let_def

lemma round_double_values:
  "round_double (7 / 10) = 6305039478318694 / 9007199254740992"
  "round_double (6 / 10) = 5404319552844595 / 9007199254740992"
  "round_double (3 / 10) = 5404319552844595 / 18014398509481984"
  "round_double (1 / 10) = 3602879701896397 / 36028797018963968"
  "round_double (3 / 4) = 3 / 4"
  "round_double 0 = 0"
  "round_double 1 = 1"
  by (simp_all add: double_eval)

lemma four_outcomes_ledgers:
  "error_database four_outcomes = [''K'' \<mapsto> [make_entry 0 (outcome_K False) False]]"
  "success_patterns four_outcomes = [''K'' \<mapsto> replicate 3 (make_entry 0 (outcome_K True) True)]"
  by (simp_all add: four_outcomes_def learn_from_deployment_def outcome_K_def strip_K Let_def
      store_success_pattern_def store_error_pattern_def update_metrics_def get_list_def
      PatternLearningSystem_init_def max_patterns_per_error_def make_entry_def
      numeral_3_eq_3)

lemma four_outcomes_history:
  "history four_outcomes ''K'' =
     make_entry 0 (outcome_K False) False # replicate 3 (make_entry 0 (outcome_K True) True)"
  by (simp add: history_def four_outcomes_ledgers get_list_def)

lemma four_outcomes_rate:
  "success_rate_of ''S'' (history four_outcomes ''K'') = 3 / 4"
  by (simp add: success_rate_of_def attempts_def four_outcomes_history make_entry_def
      outcome_K_def numeral_3_eq_3 fdiv_def round_double_values)

lemma four_outcomes_keys:
  "map fst (calculate_solution_stats 0 (history four_outcomes ''K'')) = [''S'']"
proof -
  have "map fst (calculate_solution_stats 0 (history four_outcomes ''K''))
          = map fst (foldl (stats_step (0 - timedelta_days 30)) []
                       (history four_outcomes ''K''))"
    by (simp add: calculate_solution_stats_def case_prod_unfold comp_def)
  also have "\<dots> = [''S'']"
    by (simp add: four_outcomes_history make_entry_def outcome_K_def numeral_3_eq_3
        stats_step_def)
  finally show ?thesis .
qed

lemma select_best_solution_single:
  "select_best_solution [x] = Some (score_solution x)"
  by (simp add: select_best_solution_def sort_reverse_def)

lemma four_outcomes_suggest: "suggest_solution 0 four_outcomes ''K'' = Some ''S''"
proof -
  from four_outcomes_keys obtain st
    where st: "calculate_solution_stats 0 (history four_outcomes ''K'') = [(''S'', st)]"
    by (cases "calculate_solution_stats 0 (history four_outcomes ''K'')") auto
  then have "(''S'', st) \<in> set (calculate_solution_stats 0 (history four_outcomes ''K''))"
    by simp
  from score_entry(1,2)[OF this]
  have sc: "sc_solution (score_solution (''S'', st)) = ''S''"
    "sc_success_rate (score_solution (''S'', st)) = 3 / 4"
    by (simp_all add: four_outcomes_rate)
  have ne: "history four_outcomes ''K'' \<noteq> []" by (simp add: four_outcomes_history)
  have db: "error_database four_outcomes ''K'' \<noteq> None"
    by (simp add: four_outcomes_ledgers)
  have h: "get_list (error_database four_outcomes) ''K''
             @ get_list (success_patterns four_outcomes) ''K'' = history four_outcomes ''K''"
    by (simp add: history_def)
  show ?thesis
    unfolding suggest_solution_def Let_def h
    using ne db
    by (simp add: st select_best_solution_single sc min_success_rate_def
        round_double_values)
qed

text \<open>
  \<^bold>\<open>C4, witness.\<close> Three successes and one failure of the solution \<^verbatim>\<open>S\<close> under the
  key \<^verbatim>\<open>K\<close>: the rate is \<open>3/4\<close> and \<^verbatim>\<open>S\<close> is suggested; a fresh system
  suggests nothing.
\<close>

theorem suggest_solution_ranking_witness:
  "suggest_solution 0 four_outcomes ''K'' = Some ''S'' \<and>
   ''S'' \<in> set (candidates (history four_outcomes ''K'')) \<and>
   success_rate_of ''S'' (history four_outcomes ''K'') \<ge> round_double (7 / 10) \<and>
   suggest_solution 0 PatternLearningSystem_init ''K'' = None \<and>
   candidates (history PatternLearningSystem_init ''K'') = []"
  using suggest_solution_ranking[where now = 0 and self = four_outcomes and k = "''K''"
          and s = "''S''"]
        suggest_solution_ranking[where now = 0 and self = PatternLearningSystem_init
          and k = "''K''" and s = "''S''"]
  by (simp add: four_outcomes_suggest PatternLearningSystem_init_def history_def get_list_def
       candidates_def)

section \<open>Properties of the improvement engine\<close>

lemma slow_fields:
  "sg_type slow = Some PERFORMANCE" "sg_risk_level slow = Some LOW"
  "sg_title slow = Some ''Slow Response Times''"
  by (simp_all add: slow_def response_suggestion_def)

lemma heavy_fields:
  "sg_type heavy = Some MEMORY" "sg_risk_level heavy = Some MEDIUM"
  by (simp_all add: heavy_def memory_suggestion_def)

lemma heavy_neq_slow: "heavy \<noteq> slow" "slow \<noteq> heavy"
  using slow_fields(1) heavy_fields(1) by auto

lemma generate_slow_and_heavy:
  "length (optimization_suggestions self) \<le> 10 \<Longrightarrow>
   generate_optimization_suggestions self slow_and_heavy =
     ([heavy, slow], self\<lparr>optimization_suggestions := optimization_suggestions self @ [heavy, slow]\<rparr>)"
  by (simp add: generate_optimization_suggestions_def slow_and_heavy_def heavy_def slow_def
      Let_def)

lemma twelve_pending_backlog:
  "twelve_pending = ContinuousImprovementEngine_init
     \<lparr>optimization_suggestions :=
        [heavy, slow, heavy, slow, heavy, slow, heavy, slow, heavy, slow, heavy, slow]\<rparr>"
  by (simp add: twelve_pending_def run_engine_def eval_nat_numeral generate_slow_and_heavy
      ContinuousImprovementEngine_init_def)

lemma improve_one_slow:
  "slow \<in> set (optimization_suggestions self) \<Longrightarrow>
   improve_one now (self, res) slow =
     ((log_improvement now self slow)
        \<lparr>optimization_suggestions := remove1 slow (optimization_suggestions self)\<rparr>,
      res\<lparr>implemented := implemented res + 1,
          details := details res @
            [\<lparr>dt_title = ''Slow Response Times'', dt_success = True, dt_error = None,
              dt_risk_level = ''low''\<rparr>]\<rparr>)"
  by (simp add: improve_one_def apply_improvement_def slow_fields log_improvement_def
      record_detail_def risk_text_def Let_def)

lemma log_improvement_backlog:
  "optimization_suggestions (log_improvement now self s) = optimization_suggestions self"
  by (simp add: log_improvement_def Let_def split: option.splits)

text \<open>
  \<^bold>\<open>C3, at the failing input.\<close> Six calls of \<^verbatim>\<open>generate_optimization_suggestions\<close> on
  the same readings leave 12 pending suggestions, 6 of them of risk LOW and equal to one
  another. \<^verbatim>\<open>implement_improvements\<close> applies and logs 5 of them and none fails, but no
  LOW suggestion remains pending: the loop \<^verbatim>\<open># Remove processed suggestions\<close> finds the
  sixth, which was never applied, equal to a processed one and removes it. The six
  MEDIUM suggestions are untouched.
\<close>

theorem duplicate_suggestions_removed_unapplied:
  "length (optimization_suggestions twelve_pending) = 12 \<and>
   length (filter (\<lambda>s. sg_risk_level s = Some LOW) (optimization_suggestions twelve_pending)) = 6 \<and>
   implemented (fst (implement_improvements 0 twelve_pending)) = 5 \<and>
   failed (fst (implement_improvements 0 twelve_pending)) = 0 \<and>
   length (applied_improvements (snd (implement_improvements 0 twelve_pending))) = 5 \<and>
   filter (\<lambda>s. sg_risk_level s = Some LOW)
     (optimization_suggestions (snd (implement_improvements 0 twelve_pending))) = [] \<and>
   optimization_suggestions (snd (implement_improvements 0 twelve_pending))
     = [heavy, heavy, heavy, heavy, heavy, heavy]"
  by (simp add: twelve_pending_backlog implement_improvements_def slow_fields heavy_fields
      eval_nat_numeral improve_one_slow log_improvement_backlog heavy_neq_slow
      remove_processed_def results_init_def ContinuousImprovementEngine_init_def
      log_improvement_def Let_def last_n_def)

lemma apply_improvement_fields:
  "optimization_suggestions (snd (apply_improvement self s)) = optimization_suggestions self"
  "applied_improvements (snd (apply_improvement self s)) = applied_improvements self"
  by (auto simp: apply_improvement_def apply_memory_optimization_def
      split: option.splits OptimizationType.splits)

lemma log_improvement_applied:
  "applied_improvements (log_improvement now self s) =
     (case sg_type s of
        None \<Rightarrow> applied_improvements self
      | Some t \<Rightarrow>
         (case sg_risk_level s of
            None \<Rightarrow> applied_improvements self
          | Some r \<Rightarrow> last_n 100 (applied_improvements self @ [make_log_entry now s t r])))"
  by (simp add: log_improvement_def Let_def last_n_def split: option.splits)

lemma log_improvement_capped:
  "length (applied_improvements self) \<le> 100 \<Longrightarrow>
   length (applied_improvements (log_improvement now self s)) \<le> 100"
  by (simp add: log_improvement_applied last_n_length split: option.splits)

lemma improve_one_capped:
  "length (applied_improvements (fst st)) \<le> 100 \<Longrightarrow>
   length (applied_improvements (fst (improve_one now st s))) \<le> 100"
proof -
  assume a: "length (applied_improvements (fst st)) \<le> 100"
  obtain self res where st: "st = (self, res)" by (cases st)
  obtain success self1 where ap: "apply_improvement self s = (success, self1)"
    by (cases "apply_improvement self s")
  have "applied_improvements self1 = applied_improvements self"
    using apply_improvement_fields(2)[of self s] ap by simp
  with a st have "length (applied_improvements self1) \<le> 100" by simp
  then have "length (applied_improvements (log_improvement now self1 s)) \<le> 100"
    by (rule log_improvement_capped)
  with \<open>length (applied_improvements self1) \<le> 100\<close> show ?thesis
    by (simp add: st improve_one_def ap Let_def)
qed

lemma improve_batch_capped:
  "length (applied_improvements (fst st)) \<le> 100 \<Longrightarrow>
   length (applied_improvements (fst (foldl (improve_one now) st batch))) \<le> 100"
  by (induction batch arbitrary: st) (simp_all add: improve_one_capped)

lemma remove_processed_applied:
  "applied_improvements (foldl remove_processed self batch) = applied_improvements self"
  by (induction batch arbitrary: self) (simp_all add: remove_processed_def)

lemma implement_improvements_capped:
  "length (applied_improvements self) \<le> 100 \<Longrightarrow>
   length (applied_improvements (snd (implement_improvements now self))) \<le> 100"
  using improve_batch_capped[of "(self, results_init)" now]
  by (auto simp: implement_improvements_def Let_def remove_processed_applied
      split: prod.splits) (metis fst_conv)

lemma generate_fields:
  "applied_improvements (snd (generate_optimization_suggestions self m))
     = applied_improvements self"
  "optimization_suggestions (snd (generate_optimization_suggestions self m))
     = optimization_suggestions self @ fst (generate_optimization_suggestions self m)"
  by (simp_all add: generate_optimization_suggestions_def Let_def)

lemma generate_at_most_four:
  "length (fst (generate_optimization_suggestions self m)) \<le> 4"
  by (simp add: generate_optimization_suggestions_def Let_def split: option.splits)

lemma engine_step_capped:
  "length (applied_improvements self) \<le> 100 \<Longrightarrow>
   length (applied_improvements (engine_step self op)) \<le> 100"
  by (cases op) (simp_all add: generate_fields implement_improvements_capped)

lemma run_engine_capped:
  "length (applied_improvements self) \<le> 100 \<Longrightarrow>
   length (applied_improvements (run_engine self ops)) \<le> 100"
  unfolding run_engine_def
  by (induction ops arbitrary: self) (simp_all add: engine_step_capped)

text \<open>
  \<^bold>\<open>C8 (as amended).\<close> Over every sequence of generate and implement cycles on a fresh
  engine the applied log holds at most 100 entries: \<^verbatim>\<open>log_improvement\<close> appends one entry
  and keeps the last 100 (not half of them). The backlog has no cap:
  \<^verbatim>\<open>generate_optimization_suggestions\<close> appends its at most four suggestions and evicts
  nothing.
\<close>

theorem applied_log_capped_backlog_unbounded:
  "length (applied_improvements (run_engine ContinuousImprovementEngine_init ops)) \<le> 100 \<and>
   applied_improvements (log_improvement now self s) =
     (case sg_type s of
        None \<Rightarrow> applied_improvements self
      | Some t \<Rightarrow>
         (case sg_risk_level s of
            None \<Rightarrow> applied_improvements self
          | Some r \<Rightarrow> last_n 100 (applied_improvements self @ [make_log_entry now s t r]))) \<and>
   optimization_suggestions (snd (generate_optimization_suggestions self m))
     = optimization_suggestions self @ fst (generate_optimization_suggestions self m) \<and>
   length (fst (generate_optimization_suggestions self m)) \<le> 4"
  using run_engine_capped[of ContinuousImprovementEngine_init ops]
  by (simp add: log_improvement_applied generate_fields generate_at_most_four
      ContinuousImprovementEngine_init_def)

lemma generate_heavy_grows:
  "length (optimization_suggestions (snd (generate_optimization_suggestions self slow_and_heavy)))
     \<ge> length (optimization_suggestions self) + 2"
  by (simp add: generate_optimization_suggestions_def slow_and_heavy_def Let_def)

lemma backlog_grows:
  "length (optimization_suggestions (run_engine self (replicate n (Generate slow_and_heavy))))
     \<ge> length (optimization_suggestions self) + 2 * n"
proof (induction n arbitrary: self)
  case 0
  then show ?case by (simp add: run_engine_def)
next
  case (Suc n)
  let ?s = "snd (generate_optimization_suggestions self slow_and_heavy)"
  have "length (optimization_suggestions self) + 2 * Suc n
          \<le> length (optimization_suggestions ?s) + 2 * n"
    using generate_heavy_grows[of self] by simp
  also have "\<dots> \<le> length (optimization_suggestions
                       (run_engine ?s (replicate n (Generate slow_and_heavy))))"
    by (rule Suc.IH)
  finally show ?case by (simp add: run_engine_def)
qed

text \<open>
  \<^bold>\<open>C8, counterexample.\<close> After 501 calls of \<^verbatim>\<open>generate_optimization_suggestions\<close> on
  readings of 600 MB and 45 s the backlog holds more than 1000 suggestions; and logging one
  more improvement into a full applied log leaves 100 entries, not 50.
\<close>

theorem backlog_cap_counterexample:
  "1000 < length (optimization_suggestions
       (run_engine ContinuousImprovementEngine_init (replicate 501 (Generate slow_and_heavy)))) \<and>
   length (applied_improvements full_log) = 100 \<and>
   length (applied_improvements (log_improvement 0 full_log slow)) = 100"
proof -
  have "2 * 501 \<le> length (optimization_suggestions
       (run_engine ContinuousImprovementEngine_init (replicate 501 (Generate slow_and_heavy))))"
    using backlog_grows[of ContinuousImprovementEngine_init 501] by simp
  then show ?thesis
    by (simp add: log_improvement_applied slow_fields full_log_def length_last_n)
qed

lemma filter_remove1_other: "\<not> P x \<Longrightarrow> filter P (remove1 x xs) = filter P xs"
  by (induction xs) auto

lemma improve_one_backlog:
  "optimization_suggestions (fst (improve_one now st s))
     = optimization_suggestions (fst st) \<or>
   optimization_suggestions (fst (improve_one now st s))
     = remove1 s (optimization_suggestions (fst st))"
proof -
  obtain self res where st: "st = (self, res)" by (cases st)
  obtain success self1 where ap: "apply_improvement self s = (success, self1)"
    by (cases "apply_improvement self s")
  have "optimization_suggestions self1 = optimization_suggestions self"
    using apply_improvement_fields(1)[of self s] ap by simp
  then show ?thesis
    by (simp add: st improve_one_def ap Let_def log_improvement_backlog)
qed

lemma improve_one_implemented:
  "implemented (snd (improve_one now st s)) \<le> implemented (snd st) + 1"
  by (cases st)
     (auto simp: improve_one_def Let_def record_detail_def record_exception_def
       split: prod.splits option.splits)

lemma improve_batch_implemented:
  "implemented (snd (foldl (improve_one now) st batch)) \<le> implemented (snd st) + length batch"
proof (induction batch arbitrary: st)
  case Nil
  then show ?case by simp
next
  case (Cons s batch)
  have "implemented (snd (foldl (improve_one now) (improve_one now st s) batch))
          \<le> implemented (snd (improve_one now st s)) + length batch"
    by (rule Cons.IH)
  with improve_one_implemented[of now st s] show ?case by simp
qed

lemma improve_batch_other_risks:
  "\<forall>s \<in> set batch. sg_risk_level s = Some LOW \<Longrightarrow>
   filter (\<lambda>s. sg_risk_level s \<noteq> Some LOW)
     (optimization_suggestions (fst (foldl (improve_one now) st batch)))
   = filter (\<lambda>s. sg_risk_level s \<noteq> Some LOW) (optimization_suggestions (fst st))"
proof (induction batch arbitrary: st)
  case Nil
  then show ?case by simp
next
  case (Cons s batch)
  have "filter (\<lambda>s. sg_risk_level s \<noteq> Some LOW)
          (optimization_suggestions (fst (improve_one now st s)))
        = filter (\<lambda>s. sg_risk_level s \<noteq> Some LOW) (optimization_suggestions (fst st))"
    using improve_one_backlog[of now st s] Cons.prems
    by (auto simp: filter_remove1_other)
  with Cons show ?case by simp
qed

lemma remove_processed_other_risks:
  "\<forall>s \<in> set batch. sg_risk_level s = Some LOW \<Longrightarrow>
   filter (\<lambda>s. sg_risk_level s \<noteq> Some LOW)
     (optimization_suggestions (foldl remove_processed self batch))
   = filter (\<lambda>s. sg_risk_level s \<noteq> Some LOW) (optimization_suggestions self)"
  by (induction batch arbitrary: self)
     (simp_all add: remove_processed_def filter_remove1_other)

lemma other_risks_untouched:
  "filter (\<lambda>s. sg_risk_level s \<noteq> Some LOW)
     (optimization_suggestions (snd (implement_improvements now self)))
   = filter (\<lambda>s. sg_risk_level s \<noteq> Some LOW) (optimization_suggestions self)"
proof -
  let ?low = "filter (\<lambda>s. sg_risk_level s = Some LOW) (optimization_suggestions self)"
  obtain self1 res where f: "foldl (improve_one now) (self, results_init) (take 5 ?low) = (self1, res)"
    by (cases "foldl (improve_one now) (self, results_init) (take 5 ?low)")
  have low: "\<forall>s \<in> set (take n ?low). sg_risk_level s = Some LOW" for n
    by (auto dest: in_set_takeD)
  have "filter (\<lambda>s. sg_risk_level s \<noteq> Some LOW) (optimization_suggestions self1)
        = filter (\<lambda>s. sg_risk_level s \<noteq> Some LOW) (optimization_suggestions self)"
    using improve_batch_other_risks[OF low, where now = now and st = "(self, results_init)"
        and n1 = 5] f by simp
  then show ?thesis
    using remove_processed_other_risks[OF low, where self = self1 and n1 = "implemented res"]
    by (simp add: implement_improvements_def Let_def f)
qed

lemma at_most_five_applied:
  "implemented (fst (implement_improvements now self)) \<le> 5"
proof -
  let ?low = "filter (\<lambda>s. sg_risk_level s = Some LOW) (optimization_suggestions self)"
  have "implemented (snd (foldl (improve_one now) (self, results_init) (take 5 ?low)))
          \<le> implemented (snd (self, results_init)) + length (take 5 ?low)"
    by (rule improve_batch_implemented)
  then show ?thesis
    by (auto simp: implement_improvements_def Let_def results_init_def split: prod.splits)
qed

section \<open>Properties of the coordinator\<close>

subsection \<open>What each operation changes\<close>

lemma create_transfers_frame:
  "agent_profiles (foldl (create_transfer now uuid e) self xs) = agent_profiles self"
  "learning_experiences (foldl (create_transfer now uuid e) self xs) = learning_experiences self"
  "metrics_of (foldl (create_transfer now uuid e) self xs) = metrics_of self"
  by (induction xs arbitrary: self) (auto simp: create_transfer_def Let_def)

lemma create_transfers_other_key:
  "\<forall>i. uuid i \<noteq> k \<Longrightarrow>
   knowledge_transfers (foldl (create_transfer now uuid e) self xs) k = knowledge_transfers self k"
  by (induction xs arbitrary: self) (auto simp: create_transfer_def Let_def)

lemma create_transfers_new:
  "knowledge_transfers (foldl (create_transfer now uuid e) self xs) k = Some t \<Longrightarrow>
   knowledge_transfers self k = Some t \<or>
   (status t = Pending \<and> confidence t = exp_confidence e)"
proof (induction xs arbitrary: self)
  case Nil
  then show ?case by simp
next
  case (Cons x xs)
  from Cons.IH[of "create_transfer now uuid e self x"] Cons.prems
  have "knowledge_transfers (create_transfer now uuid e self x) k = Some t \<or>
        (status t = Pending \<and> confidence t = exp_confidence e)" by simp
  then show ?case
    by (cases x) (auto simp: create_transfer_def Let_def split: if_splits)
qed

lemma update_agent_profile_frame:
  "learning_experiences (update_agent_profile now self a e) = learning_experiences self"
  "knowledge_transfers (update_agent_profile now self a e) = knowledge_transfers self"
  "metrics_of (update_agent_profile now self a e) = metrics_of self"
  "collaboration_network (update_agent_profile now self a e) = collaboration_network self"
  by (simp_all add: update_agent_profile_def split: option.splits)

lemma update_agent_profile_profiles:
  "agent_profiles (update_agent_profile now self a e) =
     (case map_of (agent_profiles self) a of
        None \<Rightarrow> agent_profiles self
      | Some p \<Rightarrow> AList.update a (updated_profile now p e) (agent_profiles self))"
  by (simp add: update_agent_profile_def split: option.splits)

lemma update_agent_profile_lookup:
  "map_of (agent_profiles (update_agent_profile now self a e)) b =
     (if b = a then map_option (\<lambda>p. updated_profile now p e) (map_of (agent_profiles self) a)
      else map_of (agent_profiles self) b)"
  by (simp add: update_agent_profile_profiles update_conv' split: option.splits)

lemma update_existing_keys:
  "map_of al k = Some v \<Longrightarrow> map fst (AList.update k v' al) = map fst al"
  by (induction al) (auto split: if_splits)

lemma update_agent_profile_keys:
  "map fst (agent_profiles (update_agent_profile now self a e)) = map fst (agent_profiles self)"
  by (simp add: update_agent_profile_profiles update_existing_keys split: option.splits)

lemma share_experiences:
  "learning_experiences (snd (share_learning_experience now uuid self e))
     = deque_append 10000 (learning_experiences self) e"
  by (simp add: share_learning_experience_def Let_def create_transfers_frame
      update_agent_profile_frame)

lemma share_profiles:
  "agent_profiles (snd (share_learning_experience now uuid self e))
     = agent_profiles (update_agent_profile now self (exp_agent_id e) e)"
  by (simp add: share_learning_experience_def Let_def create_transfers_frame
      update_agent_profile_profiles split: option.splits)

lemma share_other_key:
  "\<forall>i. uuid i \<noteq> k \<Longrightarrow>
   knowledge_transfers (snd (share_learning_experience now uuid self e)) k
     = knowledge_transfers self k"
  by (simp add: share_learning_experience_def Let_def create_transfers_other_key
      update_agent_profile_frame)

lemma share_new:
  "knowledge_transfers (snd (share_learning_experience now uuid self e)) k = Some t \<Longrightarrow>
   knowledge_transfers self k = Some t \<or>
   (status t = Pending \<and> confidence t = exp_confidence e)"
  using create_transfers_new[of now uuid e
      "update_agent_profile now
         (self\<lparr>learning_experiences := deque_append 10000 (learning_experiences self) e\<rparr>)
         (exp_agent_id e) e" _ k t]
  by (simp add: share_learning_experience_def Let_def update_agent_profile_frame)

lemma apply_knowledge_frame:
  "learning_experiences (apply_knowledge_to_agent self t) = learning_experiences self"
  "knowledge_transfers (apply_knowledge_to_agent self t) = knowledge_transfers self"
  "metrics_of (apply_knowledge_to_agent self t) = metrics_of self"
  by (simp_all add: apply_knowledge_to_agent_def Let_def split: option.splits)

lemma apply_knowledge_unregistered:
  "map_of (agent_profiles self) (to_agent t) = None \<Longrightarrow> apply_knowledge_to_agent self t = self"
  by (simp add: apply_knowledge_to_agent_def)

lemma apply_knowledge_keys:
  "map fst (agent_profiles (apply_knowledge_to_agent self t)) = map fst (agent_profiles self)"
  by (simp add: apply_knowledge_to_agent_def Let_def update_existing_keys split: option.splits)

lemma apply_knowledge_other:
  "b \<noteq> to_agent t \<Longrightarrow>
   map_of (agent_profiles (apply_knowledge_to_agent self t)) b = map_of (agent_profiles self) b"
  by (simp add: apply_knowledge_to_agent_def Let_def update_conv' split: option.splits)

lemma apply_knowledge_receiver:
  "map_of (agent_profiles self) (to_agent t) = Some p \<Longrightarrow>
   map_of (agent_profiles (apply_knowledge_to_agent self t)) (to_agent t) =
     Some (p\<lparr>capabilities :=
                (if knowledge_type t \<in> set (capabilities p) then capabilities p
                 else capabilities p @ [knowledge_type t]),
              specializations :=
                (if capability_value (knowledge_type t) \<in> set (specializations p)
                 then specializations p
                 else specializations p @ [capability_value (knowledge_type t)]),
              reputation_score := min 1 (reputation_score p + 5 / 100)\<rparr>)"
  by (simp add: apply_knowledge_to_agent_def Let_def update_conv')

lemma transfer_experience_status:
  "transfer_experience now uuid (t\<lparr>status := s\<rparr>) = transfer_experience now uuid t"
  by (simp add: transfer_experience_def)

lemma process_accept_unfold:
  "knowledge_transfers self tid = Some t \<Longrightarrow>
   process_knowledge_transfer now uuid self tid True =
     (True,
      (let self3 = snd (share_learning_experience now (\<lambda>i. uuid (Suc i))
                     (apply_knowledge_to_agent
                        (self\<lparr>knowledge_transfers :=
                                (knowledge_transfers self)(tid \<mapsto> t\<lparr>status := Accepted\<rparr>)\<rparr>)
                        (t\<lparr>status := Accepted\<rparr>))
                     (transfer_experience now uuid t))
       in self3\<lparr>metrics_of := (metrics_of self3)
                 \<lparr>successful_transfers := successful_transfers (metrics_of self3) + 1\<rparr>\<rparr>))"
  by (simp add: process_knowledge_transfer_def Let_def learn_from_transfer_success_def
      transfer_experience_status)

lemma process_reject_unfold:
  "knowledge_transfers self tid = Some t \<Longrightarrow>
   process_knowledge_transfer now uuid self tid False =
     (True,
      self\<lparr>knowledge_transfers := (knowledge_transfers self)(tid \<mapsto> t\<lparr>status := Rejected\<rparr>),
           metrics_of := (metrics_of self)
             \<lparr>failed_transfers := failed_transfers (metrics_of self) + 1\<rparr>\<rparr>)"
  by (simp add: process_knowledge_transfer_def Let_def)

subsection \<open>Processing a transfer\<close>

lemma process_accept_transfers:
  assumes t: "knowledge_transfers self tid = Some t"
  shows "knowledge_transfers (snd (process_knowledge_transfer now uuid self tid True)) k = Some t'
         \<Longrightarrow> k \<noteq> tid \<Longrightarrow> knowledge_transfers self k = Some t' \<or> status t' = Pending"
    and "\<forall>i. uuid i \<noteq> tid \<Longrightarrow>
         knowledge_transfers (snd (process_knowledge_transfer now uuid self tid True)) tid
           = Some (t\<lparr>status := Accepted\<rparr>)"
proof -
  let ?self1 = "self\<lparr>knowledge_transfers :=
                      (knowledge_transfers self)(tid \<mapsto> t\<lparr>status := Accepted\<rparr>)\<rparr>"
  let ?self2 = "apply_knowledge_to_agent ?self1 (t\<lparr>status := Accepted\<rparr>)"
  let ?sh = "snd (share_learning_experience now (\<lambda>i. uuid (Suc i)) ?self2
                   (transfer_experience now uuid t))"
  have kt: "knowledge_transfers (snd (process_knowledge_transfer now uuid self tid True))
              = knowledge_transfers ?sh"
    by (simp add: process_accept_unfold[OF t] Let_def)
  have k2: "knowledge_transfers ?self2 = (knowledge_transfers self)(tid \<mapsto> t\<lparr>status := Accepted\<rparr>)"
    by (simp add: apply_knowledge_frame)
  {
    assume a: "knowledge_transfers (snd (process_knowledge_transfer now uuid self tid True)) k
                 = Some t'" and ne: "k \<noteq> tid"
    from a have "knowledge_transfers ?sh k = Some t'" by (simp add: kt)
    from share_new[OF this] ne show "knowledge_transfers self k = Some t' \<or> status t' = Pending"
      by (auto simp: k2)
  }
  {
    assume fresh: "\<forall>i. uuid i \<noteq> tid"
    then have "\<forall>i. uuid (Suc i) \<noteq> tid" by simp
    from share_other_key[OF this, of now ?self2 "transfer_experience now uuid t"]
    show "knowledge_transfers (snd (process_knowledge_transfer now uuid self tid True)) tid
            = Some (t\<lparr>status := Accepted\<rparr>)"
      by (simp add: kt k2)
  }
qed


lemma update_agent_profile_cong:
  "agent_profiles s1 = agent_profiles s2 \<Longrightarrow>
   agent_profiles (update_agent_profile now s1 a e)
     = agent_profiles (update_agent_profile now s2 a e)"
  by (simp add: update_agent_profile_profiles split: option.splits)

lemma transfer_experience_author:
  "exp_agent_id (transfer_experience now uuid t) = from_agent t"
  by (simp add: transfer_experience_def)

lemma process_accept_profiles:
  assumes t: "knowledge_transfers self tid = Some t"
  shows "agent_profiles (snd (process_knowledge_transfer now uuid self tid True))
         = agent_profiles (update_agent_profile now
             (apply_knowledge_to_agent self (t\<lparr>status := Accepted\<rparr>)) (from_agent t)
             (transfer_experience now uuid t))"
proof -
  let ?self1 = "self\<lparr>knowledge_transfers :=
                      (knowledge_transfers self)(tid \<mapsto> t\<lparr>status := Accepted\<rparr>)\<rparr>"
  have "agent_profiles (apply_knowledge_to_agent ?self1 (t\<lparr>status := Accepted\<rparr>))
        = agent_profiles (apply_knowledge_to_agent self (t\<lparr>status := Accepted\<rparr>))"
    by (simp add: apply_knowledge_to_agent_def Let_def split: option.splits)
  then have "agent_profiles (update_agent_profile now
            (apply_knowledge_to_agent ?self1 (t\<lparr>status := Accepted\<rparr>)) (from_agent t)
            (transfer_experience now uuid t))
        = agent_profiles (update_agent_profile now
            (apply_knowledge_to_agent self (t\<lparr>status := Accepted\<rparr>)) (from_agent t)
            (transfer_experience now uuid t))"
    by (rule update_agent_profile_cong)
  then show ?thesis
    by (simp add: process_accept_unfold[OF t] Let_def share_profiles
        transfer_experience_author)
qed

lemma process_accept_experiences:
  assumes t: "knowledge_transfers self tid = Some t"
  shows "learning_experiences (snd (process_knowledge_transfer now uuid self tid True))
         = deque_append 10000 (learning_experiences self) (transfer_experience now uuid t)"
  by (simp add: process_accept_unfold[OF t] Let_def share_experiences apply_knowledge_frame)

text \<open>
  \<^bold>\<open>C10.\<close> Accepting an existing transfer whose receiving agent is not registered
  returns \<^verbatim>\<open>True\<close> and moves the transfer to \<^verbatim>\<open>accepted\<close>; the receiver has no profile
  afterwards, the set of registered agents is the same, and the profile of every agent
  other than the sender is unchanged. The identifiers drawn during the call are taken to
  differ from the transfer's.
\<close>

theorem process_unregistered_receiver:
  assumes "knowledge_transfers self tid = Some t"
    and "map_of (agent_profiles self) (to_agent t) = None"
    and "\<forall>i. uuid i \<noteq> tid"
  shows "fst (process_knowledge_transfer now uuid self tid True) = True \<and>
         knowledge_transfers (snd (process_knowledge_transfer now uuid self tid True)) tid
           = Some (t\<lparr>status := Accepted\<rparr>) \<and>
         status (t\<lparr>status := Accepted\<rparr>) \<noteq> Pending \<and>
         map_of (agent_profiles (snd (process_knowledge_transfer now uuid self tid True)))
           (to_agent t) = None \<and>
         map fst (agent_profiles (snd (process_knowledge_transfer now uuid self tid True)))
           = map fst (agent_profiles self) \<and>
         (\<forall>a. a \<noteq> from_agent t \<longrightarrow>
            map_of (agent_profiles (snd (process_knowledge_transfer now uuid self tid True))) a
              = map_of (agent_profiles self) a)"
proof -
  have ap: "apply_knowledge_to_agent self (t\<lparr>status := Accepted\<rparr>) = self"
    using assms(2) by (simp add: apply_knowledge_unregistered)
  have pr: "agent_profiles (snd (process_knowledge_transfer now uuid self tid True))
         = agent_profiles (update_agent_profile now self (from_agent t)
             (transfer_experience now uuid t))"
    using process_accept_profiles[OF assms(1), of now uuid] by (simp add: ap)
  have "map_of (agent_profiles (snd (process_knowledge_transfer now uuid self tid True)))
           (to_agent t) = None"
    using assms(2) by (auto simp: pr update_agent_profile_lookup)
  moreover have "fst (process_knowledge_transfer now uuid self tid True) = True"
    by (simp add: process_accept_unfold[OF assms(1)])
  ultimately show ?thesis
    using process_accept_transfers(2)[OF assms(1) assms(3), of now]
    by (simp add: pr update_agent_profile_keys update_agent_profile_lookup)
qed

lemma receiver_after_accept:
  assumes "knowledge_transfers self tid = Some t"
    and "map_of (agent_profiles self) (to_agent t) = Some p"
    and "from_agent t \<noteq> to_agent t"
  shows "map_of (agent_profiles (snd (process_knowledge_transfer now uuid self tid True)))
           (to_agent t) =
         Some (p\<lparr>capabilities :=
                    (if knowledge_type t \<in> set (capabilities p) then capabilities p
                     else capabilities p @ [knowledge_type t]),
                  specializations :=
                    (if capability_value (knowledge_type t) \<in> set (specializations p)
                     then specializations p
                     else specializations p @ [capability_value (knowledge_type t)]),
                  reputation_score := min 1 (reputation_score p + 5 / 100)\<rparr>)"
proof -
  let ?t = "t\<lparr>status := Accepted\<rparr>"
  have "map_of (agent_profiles self) (to_agent ?t) = Some p" using assms(2) by simp
  from apply_knowledge_receiver[OF this] assms(3) show ?thesis
    by (simp add: process_accept_profiles[OF assms(1)] update_agent_profile_lookup)
qed

lemma transfer_experience_fields:
  "experience_id (transfer_experience now uuid t) = uuid 0"
  "exp_agent_id (transfer_experience now uuid t) = from_agent t"
  "exp_agent_type (transfer_experience now uuid t) = ''learning_coordinator''"
  "learning_type (transfer_experience now uuid t) = KNOWLEDGE_TRANSFER"
  "capability (transfer_experience now uuid t) = knowledge_type t"
  "exp_context (transfer_experience now uuid t) =
     [(''transfer_type'', ''knowledge_sharing''), (''target_agent'', to_agent t),
      (''knowledge_type'', capability_value (knowledge_type t))]"
  "exp_success (transfer_experience now uuid t) = True"
  "exp_confidence (transfer_experience now uuid t) = confidence t"
  "exp_timestamp (transfer_experience now uuid t) = now"
  "metadata (transfer_experience now uuid t) = [(''transfer_id'', PyStr (transfer_id t))]"
  by (simp_all add: transfer_experience_def)

text \<open>
  \<^bold>\<open>C6 (as amended).\<close> Accepting a transfer whose receiver is registered and is not the
  sender returns \<^verbatim>\<open>True\<close>. Afterwards the receiver's profile is the former one with the
  transferred capability appended to its capabilities unless already there, the
  capability's name appended to its specializations unless already there, and the
  reputation \<open>min 1 (r + 0.05)\<close> for the former reputation \<open>r\<close>; nothing else of the
  profile changes. The transfer's status is \<^verbatim>\<open>accepted\<close>. The experience appended to the
  store is authored by the sender, of type knowledge transfer, successful, of the
  transfer's capability and confidence, and names the receiver and the transfer. The
  identifiers drawn during the call are taken to differ from the transfer's.
\<close>

theorem process_accept_effects:
  assumes "knowledge_transfers self tid = Some t"
    and "map_of (agent_profiles self) (to_agent t) = Some p"
    and "from_agent t \<noteq> to_agent t"
    and "\<forall>i. uuid i \<noteq> tid"
  shows "fst (process_knowledge_transfer now uuid self tid True) = True \<and>
         map_of (agent_profiles (snd (process_knowledge_transfer now uuid self tid True)))
           (to_agent t) =
         Some (p\<lparr>capabilities :=
                    (if knowledge_type t \<in> set (capabilities p) then capabilities p
                     else capabilities p @ [knowledge_type t]),
                  specializations :=
                    (if capability_value (knowledge_type t) \<in> set (specializations p)
                     then specializations p
                     else specializations p @ [capability_value (knowledge_type t)]),
                  reputation_score := min 1 (reputation_score p + 5 / 100)\<rparr>) \<and>
         knowledge_transfers (snd (process_knowledge_transfer now uuid self tid True)) tid
           = Some (t\<lparr>status := Accepted\<rparr>) \<and>
         learning_experiences (snd (process_knowledge_transfer now uuid self tid True))
           = deque_append 10000 (learning_experiences self) (transfer_experience now uuid t) \<and>
         experience_id (transfer_experience now uuid t) = uuid 0 \<and>
         exp_agent_id (transfer_experience now uuid t) = from_agent t \<and>
         exp_agent_type (transfer_experience now uuid t) = ''learning_coordinator'' \<and>
         learning_type (transfer_experience now uuid t) = KNOWLEDGE_TRANSFER \<and>
         capability (transfer_experience now uuid t) = knowledge_type t \<and>
         exp_context (transfer_experience now uuid t) =
           [(''transfer_type'', ''knowledge_sharing''), (''target_agent'', to_agent t),
            (''knowledge_type'', capability_value (knowledge_type t))] \<and>
         exp_success (transfer_experience now uuid t) = True \<and>
         exp_confidence (transfer_experience now uuid t) = confidence t \<and>
         exp_timestamp (transfer_experience now uuid t) = now \<and>
         metadata (transfer_experience now uuid t) = [(''transfer_id'', PyStr (transfer_id t))]"
proof -
  have returned: "fst (process_knowledge_transfer now uuid self tid True) = True"
    by (simp add: process_accept_unfold[OF assms(1)])
  show ?thesis
    using returned receiver_after_accept[OF assms(1) assms(2) assms(3), of now uuid]
      process_accept_transfers(2)[OF assms(1) assms(4), of now]
      process_accept_experiences[OF assms(1), of now uuid]
      transfer_experience_fields[of now uuid t]
    by simp
qed

lemma process_reject_frame:
  assumes t: "knowledge_transfers self tid = Some t"
  shows "agent_profiles (snd (process_knowledge_transfer now uuid self tid False))
           = agent_profiles self"
    and "learning_experiences (snd (process_knowledge_transfer now uuid self tid False))
           = learning_experiences self"
    and "knowledge_transfers (snd (process_knowledge_transfer now uuid self tid False))
           = (knowledge_transfers self)(tid \<mapsto> t\<lparr>status := Rejected\<rparr>)"
  by (simp_all add: process_reject_unfold[OF t])

subsection \<open>The sample run, evaluated\<close>

lemma ids_0: "ids p 0 = p"
  by (simp add: ids_def)

lemma ids_fresh: "ids ''m'' i \<noteq> ''t''"
  by (simp add: ids_def)

lemma testing_experience_fields:
  "exp_agent_id (testing_experience n) = ''A''"
  "capability (testing_experience n) = TESTING"
  "exp_success (testing_experience n) = True"
  "exp_confidence (testing_experience n) = 9 / 10"
  by (simp_all add: testing_experience_def)

lemma no_relevant_agent:
  "agent_profiles self = [(''A'', pa), (''B'', profile_B)] \<Longrightarrow>
   collaboration_network self = Map.empty \<Longrightarrow>
   find_relevant_agents self (testing_experience n) = []"
  by (simp add: find_relevant_agents_def testing_experience_fields profile_B_def get_list_def)

lemma share_quiet:
  assumes p: "agent_profiles self = [(''A'', pa), (''B'', profile_B)]"
    and c: "collaboration_network self = Map.empty"
  shows "agent_profiles (snd (share_learning_experience now uuid self (testing_experience n)))
           = [(''A'', updated_profile now pa (testing_experience n)), (''B'', profile_B)]"
    and "collaboration_network
           (snd (share_learning_experience now uuid self (testing_experience n))) = Map.empty"
    and "knowledge_transfers
           (snd (share_learning_experience now uuid self (testing_experience n)))
           = knowledge_transfers self"
proof -
  let ?e = "testing_experience n"
  let ?self1 = "self\<lparr>learning_experiences := deque_append 10000 (learning_experiences self) ?e\<rparr>"
  let ?self2 = "update_agent_profile now ?self1 (exp_agent_id ?e) ?e"
  have p2: "agent_profiles ?self2 = [(''A'', updated_profile now pa ?e), (''B'', profile_B)]"
    using p by (simp add: update_agent_profile_profiles testing_experience_fields)
  have c2: "collaboration_network ?self2 = Map.empty"
    using c by (simp add: update_agent_profile_frame)
  have r: "find_relevant_agents ?self2 ?e = []"
    using p2 c2 by (rule no_relevant_agent)
  have sh: "snd (share_learning_experience now uuid self ?e) =
          ?self2\<lparr>metrics_of := (metrics_of ?self2)
                    \<lparr>total_experiences := total_experiences (metrics_of ?self2) + 1,
                     knowledge_base_size := length (learning_experiences ?self2)\<rparr>\<rparr>"
    by (simp add: share_learning_experience_def Let_def r enumerate_eq_zip)
  show "agent_profiles (snd (share_learning_experience now uuid self ?e))
           = [(''A'', updated_profile now pa ?e), (''B'', profile_B)]"
    by (simp add: sh p2)
  show "collaboration_network (snd (share_learning_experience now uuid self ?e)) = Map.empty"
    by (simp add: sh c2)
  show "knowledge_transfers (snd (share_learning_experience now uuid self ?e))
           = knowledge_transfers self"
    by (simp add: sh update_agent_profile_frame)
qed

lemma registered_fields:
  "agent_profiles registered = [(''A'', profile_A), (''B'', profile_B)]"
  "collaboration_network registered = Map.empty"
  "knowledge_transfers registered = Map.empty"
  "learning_experiences registered = []"
  by (simp_all add: registered_def run_coordinator_def register_agent_def Let_def
      InterAgentLearningCoordinator_init_def profile_A_def profile_B_def)

lemma after_sharing_run:
  "after_sharing = run_coordinator registered
     [Share 0 (ids ''s'') (testing_experience 0),
      Share 0 (ids ''s'') (testing_experience 1),
      Share 0 (ids ''s'') (testing_experience 2)]"
  by (simp add: after_sharing_def registered_def run_coordinator_def)

lemma after_sharing_fields:
  "learning_experiences after_sharing
     = [testing_experience 0, testing_experience 1, testing_experience 2]"
  "knowledge_transfers after_sharing = Map.empty"
  "collaboration_network after_sharing = Map.empty"
  "agent_profiles after_sharing =
     [(''A'', updated_profile 0 (updated_profile 0 (updated_profile 0 profile_A
                (testing_experience 0)) (testing_experience 1)) (testing_experience 2)),
      (''B'', profile_B)]"
proof -
  let ?s1 = "snd (share_learning_experience 0 (ids ''s'') registered (testing_experience 0))"
  let ?s2 = "snd (share_learning_experience 0 (ids ''s'') ?s1 (testing_experience 1))"
  let ?s3 = "snd (share_learning_experience 0 (ids ''s'') ?s2 (testing_experience 2))"
  have eq: "after_sharing = ?s3"
    by (simp add: after_sharing_run run_coordinator_def)
  note f1 = share_quiet[OF registered_fields(1) registered_fields(2),
      of 0 "ids ''s''" 0]
  note f2 = share_quiet[OF f1(1) f1(2), of 0 "ids ''s''" 1]
  note f3 = share_quiet[OF f2(1) f2(2), of 0 "ids ''s''" 2]
  show "learning_experiences after_sharing
     = [testing_experience 0, testing_experience 1, testing_experience 2]"
    by (simp add: eq share_experiences registered_fields deque_append_def)
  show "knowledge_transfers after_sharing = Map.empty"
    unfolding eq using f3(3) f2(3) f1(3) registered_fields(3) by simp
  show "collaboration_network after_sharing = Map.empty"
    unfolding eq using f3(2) by simp
  show "agent_profiles after_sharing =
     [(''A'', updated_profile 0 (updated_profile 0 (updated_profile 0 profile_A
                (testing_experience 0)) (testing_experience 1)) (testing_experience 2)),
      (''B'', profile_B)]"
    unfolding eq using f3(1) by simp
qed

lemma requested_eq:
  "requested =
     (Some ''t'',
      after_sharing\<lparr>knowledge_transfers := [''t'' \<mapsto> testing_transfer],
                    collaboration_network := [''A'' \<mapsto> [''B'']]\<rparr>)"
  by (simp add: requested_def request_knowledge_transfer_def after_sharing_fields
      testing_experience_fields Let_def ids_0 testing_transfer_def last_n_def get_list_def)

lemma requested_fields:
  "fst requested = Some ''t''"
  "knowledge_transfers (snd requested) ''t'' = Some testing_transfer"
  "map_of (agent_profiles (snd requested)) ''B'' = Some profile_B"
  by (simp_all add: requested_eq after_sharing_fields)

lemma testing_transfer_fields:
  "from_agent testing_transfer = ''A''" "to_agent testing_transfer = ''B''"
  "knowledge_type testing_transfer = TESTING" "confidence testing_transfer = 9 / 10"
  by (simp_all add: testing_transfer_def)

text \<open>
  \<^bold>\<open>C6, witness.\<close> In the sample run the request returns an identifier, and accepting it
  leaves \<^verbatim>\<open>B\<close> with the testing capability and a reputation of 0.55, above 0.5.
\<close>

theorem process_accept_effects_witness:
  "fst requested = Some ''t'' \<and>
   fst (process_knowledge_transfer 0 (ids ''m'') (snd requested) ''t'' True) = True \<and>
   map_of (agent_profiles
      (snd (process_knowledge_transfer 0 (ids ''m'') (snd requested) ''t'' True))) ''B''
     = Some (profile_B\<lparr>capabilities := [CODE_REVIEW, TESTING],
                        specializations := [''testing''],
                        reputation_score := 11 / 20\<rparr>) \<and>
   (11 / 20 :: real) > 1 / 2 \<and>
   knowledge_transfers
      (snd (process_knowledge_transfer 0 (ids ''m'') (snd requested) ''t'' True)) ''t''
     = Some (testing_transfer\<lparr>status := Accepted\<rparr>)"
proof -
  have h2: "map_of (agent_profiles (snd requested)) (to_agent testing_transfer) = Some profile_B"
    by (simp add: requested_fields testing_transfer_fields)
  have h3: "from_agent testing_transfer \<noteq> to_agent testing_transfer"
    by (simp add: testing_transfer_fields)
  have h4: "\<forall>i. ids ''m'' i \<noteq> ''t''" by (simp add: ids_fresh)
  from process_accept_effects[OF requested_fields(2) h2 h3 h4, of 0]
  show ?thesis
    by (simp add: requested_fields testing_transfer_fields profile_B_def)
qed

lemma profile_A_after_sharing:
  "map_option reputation_score (map_of (agent_profiles after_sharing) ''A'') = Some (77 / 100)"
  "map_option capabilities (map_of (agent_profiles after_sharing) ''A'') = Some [TESTING]"
  by (simp_all add: after_sharing_fields updated_profile_def Let_def testing_experience_fields
      profile_A_def)

lemma self_requested_eq:
  "knowledge_transfers (snd self_requested) ''t'' =
     Some (testing_transfer\<lparr>to_agent := ''A'',
             content := RequestedKnowledge
                  [testing_experience 0, testing_experience 1, testing_experience 2]
                  ''testing'' ''Knowledge transfer for testing from A''\<rparr>)"
  "agent_profiles (snd self_requested) = agent_profiles after_sharing"
  by (simp_all add: self_requested_def request_knowledge_transfer_def after_sharing_fields
      testing_experience_fields Let_def ids_0 testing_transfer_def last_n_def get_list_def)

lemma self_transfer_reputation:
  "map_option reputation_score
     (map_of (agent_profiles
        (snd (process_knowledge_transfer 0 (ids ''m'') (snd self_requested) ''t'' True))) ''A'')
   = Some (91 / 100)"
  by (simp add: process_accept_profiles[OF self_requested_eq(1)] update_agent_profile_lookup
      apply_knowledge_to_agent_def self_requested_eq(2) after_sharing_fields Let_def
      update_conv' updated_profile_def testing_experience_fields profile_A_def
      transfer_experience_def testing_transfer_def)

text \<open>
  \<^bold>\<open>C6, counterexample.\<close> In the sample run the accepted transfer ends with status
  \<^verbatim>\<open>accepted\<close>, not \<^verbatim>\<open>applied\<close>. And when \<^verbatim>\<open>A\<close> requests a transfer from itself and
  accepts it, its reputation goes from 0.77 to 0.91, not to 0.82: the experience that
  records the transfer is credited to the sender, here the receiver too.
\<close>

theorem process_accept_status_counterexample:
  "knowledge_transfers (snd requested) ''t'' = Some testing_transfer \<and>
   status testing_transfer = Pending \<and>
   knowledge_transfers
      (snd (process_knowledge_transfer 0 (ids ''m'') (snd requested) ''t'' True)) ''t''
     = Some (testing_transfer\<lparr>status := Accepted\<rparr>) \<and>
   status (testing_transfer\<lparr>status := Accepted\<rparr>) \<noteq> Applied \<and>
   map_option reputation_score (map_of (agent_profiles (snd self_requested)) ''A'')
     = Some (77 / 100) \<and>
   map_option reputation_score
     (map_of (agent_profiles
        (snd (process_knowledge_transfer 0 (ids ''m'') (snd self_requested) ''t'' True))) ''A'')
     = Some (91 / 100) \<and>
   min 1 (77 / 100 + 5 / 100) \<noteq> (91 / 100 :: real)"
proof -
  have h4: "\<forall>i. ids ''m'' i \<noteq> ''t''" by (simp add: ids_fresh)
  from process_accept_transfers(2)[OF requested_fields(2) h4, of 0]
  show ?thesis
    by (simp add: requested_fields self_transfer_reputation self_requested_eq(2)
        profile_A_after_sharing) (simp add: testing_transfer_def)
qed

subsection \<open>The status of a transfer\<close>











lemma ghost_requested_fields:
  "knowledge_transfers (snd ghost_requested) ''t'' =
     Some (testing_transfer\<lparr>to_agent := ''ghost''\<rparr>)"
  "agent_profiles (snd ghost_requested) = agent_profiles after_sharing"
  by (simp_all add: ghost_requested_def request_knowledge_transfer_def after_sharing_fields
      testing_experience_fields Let_def ids_0 testing_transfer_def last_n_def get_list_def)

text \<open>
  \<^bold>\<open>C10, witness.\<close> In the sample run a transfer from \<^verbatim>\<open>A\<close> to the unregistered agent
  \<^verbatim>\<open>ghost\<close> is requested and accepted: the call returns \<^verbatim>\<open>True\<close>, the status is
  \<^verbatim>\<open>accepted\<close>, and \<^verbatim>\<open>ghost\<close> still has no profile.
\<close>

theorem process_unregistered_receiver_witness:
  "knowledge_transfers (snd ghost_requested) ''t''
     = Some (testing_transfer\<lparr>to_agent := ''ghost''\<rparr>) \<and>
   map_of (agent_profiles (snd ghost_requested)) ''ghost'' = None \<and>
   fst (process_knowledge_transfer 0 (ids ''m'') (snd ghost_requested) ''t'' True) = True \<and>
   knowledge_transfers
     (snd (process_knowledge_transfer 0 (ids ''m'') (snd ghost_requested) ''t'' True)) ''t''
     = Some (testing_transfer\<lparr>to_agent := ''ghost'', status := Accepted\<rparr>) \<and>
   map_of (agent_profiles
     (snd (process_knowledge_transfer 0 (ids ''m'') (snd ghost_requested) ''t'' True))) ''ghost''
     = None \<and>
   map fst (agent_profiles
     (snd (process_knowledge_transfer 0 (ids ''m'') (snd ghost_requested) ''t'' True)))
     = [''A'', ''B'']"
proof -
  have h2: "map_of (agent_profiles (snd ghost_requested))
              (to_agent (testing_transfer\<lparr>to_agent := ''ghost''\<rparr>)) = None"
    by (simp add: ghost_requested_fields after_sharing_fields)
  have h3: "\<forall>i. ids ''m'' i \<noteq> ''t''" by (simp add: ids_fresh)
  from process_unregistered_receiver[OF ghost_requested_fields(1) h2 h3, of 0]
  show ?thesis
    by (simp add: ghost_requested_fields after_sharing_fields)
qed

subsection \<open>Rates and reputation stay between 0 and 1\<close>

lemma set_update_subset: "set (AList.update k v al) \<subseteq> insert (k, v) (set al)"
  by (induction al) auto

lemma update_all:
  "\<forall>p \<in> snd ` set al. P p \<Longrightarrow> P v \<Longrightarrow> \<forall>p \<in> snd ` set (AList.update k v al). P p"
  using set_update_subset[of k v al] by fastforce

lemma updated_profile_fields:
  "experience_count (updated_profile now p e) = experience_count p + 1"
  "success_rate (updated_profile now p e) =
     (if experience_count p = 0 then (if exp_success e then 1 else 0)
      else 7 / 10 * success_rate p + 3 / 10 * (if exp_success e then 1 else 0))"
  "average_confidence (updated_profile now p e) =
     (if experience_count p = 0 then exp_confidence e
      else 7 / 10 * average_confidence p + 3 / 10 * exp_confidence e)"
  "reputation_score (updated_profile now p e) =
     min 1 (max 0 (reputation_score p
                   + 1 / 10 * (exp_confidence e * (if exp_success e then 1 else - (1 / 2)))))"
  by (simp_all add: updated_profile_def Let_def)

lemma updated_profile_rates:
  assumes "rates_in_range p"
  shows "rates_in_range (updated_profile now p e)"
proof -
  from assms have sr: "0 \<le> success_rate p" "success_rate p \<le> 1"
    by (simp_all add: rates_in_range_def unit_interval_def)
  have "unit_interval (success_rate (updated_profile now p e))"
    using sr unfolding updated_profile_fields unit_interval_def
    by (cases "experience_count p = 0"; cases "exp_success e") simp_all
  moreover have "unit_interval (reputation_score (updated_profile now p e))"
    unfolding updated_profile_fields unit_interval_def by simp
  ultimately show ?thesis by (simp add: rates_in_range_def)
qed

lemma updated_profile_confidence:
  assumes "unit_interval (average_confidence p)" and "unit_interval (exp_confidence e)"
  shows "unit_interval (average_confidence (updated_profile now p e))"
proof -
  from assms have b: "0 \<le> average_confidence p" "average_confidence p \<le> 1"
    "0 \<le> exp_confidence e" "exp_confidence e \<le> 1"
    by (simp_all add: unit_interval_def)
  show ?thesis
    using b unfolding updated_profile_fields unit_interval_def
    by (cases "experience_count p = 0") simp_all
qed

lemma update_agent_profile_all:
  assumes "\<forall>p \<in> snd ` set (agent_profiles self). P p"
    and "\<And>p. P p \<Longrightarrow> P (updated_profile now p e)"
  shows "\<forall>p \<in> snd ` set (agent_profiles (update_agent_profile now self a e)). P p"
proof (cases "map_of (agent_profiles self) a")
  case None
  then show ?thesis using assms(1) by (simp add: update_agent_profile_profiles)
next
  case (Some q)
  then have "(a, q) \<in> set (agent_profiles self)" by (rule map_of_SomeD)
  then have "P q" using assms(1) by force
  then have "P (updated_profile now q e)" by (rule assms(2))
  with assms(1)
  have "\<forall>p \<in> snd ` set (AList.update a (updated_profile now q e) (agent_profiles self)). P p"
    by (rule update_all)
  then show ?thesis
    by (simp only: update_agent_profile_profiles Some option.case)
qed

lemma apply_knowledge_all:
  assumes "\<forall>p \<in> snd ` set (agent_profiles self). P p"
    and "\<And>p c s. P p \<Longrightarrow>
           P (p\<lparr>capabilities := c, specializations := s,
                reputation_score := min 1 (reputation_score p + 5 / 100)\<rparr>)"
  shows "\<forall>p \<in> snd ` set (agent_profiles (apply_knowledge_to_agent self t)). P p"
proof (cases "map_of (agent_profiles self) (to_agent t)")
  case None
  then show ?thesis using assms(1) by (simp add: apply_knowledge_to_agent_def)
next
  case (Some q)
  then have "(to_agent t, q) \<in> set (agent_profiles self)" by (rule map_of_SomeD)
  then have "P q" using assms(1) by force
  then have "P (q\<lparr>capabilities := c, specializations := s,
                reputation_score := min 1 (reputation_score q + 5 / 100)\<rparr>)" for c s
    by (rule assms(2))
  with assms(1)
  have "\<forall>p \<in> snd ` set (AList.update (to_agent t)
           (q\<lparr>capabilities := c, specializations := s,
              reputation_score := min 1 (reputation_score q + 5 / 100)\<rparr>)
           (agent_profiles self)). P p" for c s
    by (rule update_all)
  then show ?thesis
    unfolding apply_knowledge_to_agent_def Let_def Some option.case
    by (simp del: image_set)
qed

lemma deque_append_set: "set (deque_append n xs x) \<subseteq> insert x (set xs)"
  by (cases xs) (auto simp: deque_append_def)

lemma mean_unit_interval:
  assumes "\<forall>x \<in> set xs. unit_interval x" and "xs \<noteq> []"
  shows "unit_interval (sum_list xs / real (length xs))"
proof -
  have "0 \<le> sum_list xs \<and> sum_list xs \<le> real (length xs)"
    using assms(1) by (induction xs) (auto simp: unit_interval_def)
  with assms(2) show ?thesis by (simp add: unit_interval_def)
qed

lemma step_profiles_in_range:
  assumes inv: "profiles_in_range self"
  shows "profiles_in_range (coordinator_step self op)"
proof (cases op)
  case (Register now aid atype caps)
  have "\<forall>p \<in> snd ` set (AList.update aid
            \<lparr>agent_id = aid, agent_type = atype, capabilities = caps, experience_count = 0,
             success_rate = 0, average_confidence = 0, specializations = [],
             collaboration_history = [], last_active = now, reputation_score = 1 / 2\<rparr>
            (agent_profiles self)). rates_in_range p"
    using inv[unfolded profiles_in_range_def]
    by (rule update_all) (simp add: rates_in_range_def unit_interval_def)
  then show ?thesis
    by (simp add: Register profiles_in_range_def register_agent_def Let_def del: image_set)
next
  case (Share now uuid e)
  show ?thesis
    unfolding Share coordinator_step.simps profiles_in_range_def share_profiles
    using inv[unfolded profiles_in_range_def] updated_profile_rates
    by (rule update_agent_profile_all)
next
  case (Request now uuid src dst cap)
  then show ?thesis
    using inv by (simp add: profiles_in_range_def request_knowledge_transfer_def Let_def)
next
  case (Process now uuid tid accept)
  show ?thesis
  proof (cases "knowledge_transfers self tid")
    case None
    then show ?thesis using inv by (simp add: Process process_knowledge_transfer_def)
  next
    case (Some t)
    show ?thesis
    proof (cases accept)
      case False
      then show ?thesis
        using inv by (simp add: Process profiles_in_range_def process_reject_frame[OF Some])
    next
      case True
      have "\<forall>p \<in> snd ` set (agent_profiles
               (apply_knowledge_to_agent self (t\<lparr>status := Accepted\<rparr>))). rates_in_range p"
        using inv[unfolded profiles_in_range_def]
        by (rule apply_knowledge_all) (simp add: rates_in_range_def unit_interval_def)
      then have "\<forall>p \<in> snd ` set (agent_profiles (update_agent_profile now
               (apply_knowledge_to_agent self (t\<lparr>status := Accepted\<rparr>)) (from_agent t)
               (transfer_experience now uuid t))). rates_in_range p"
        using updated_profile_rates by (rule update_agent_profile_all)
      then show ?thesis
        using True
        by (simp only: Process coordinator_step.simps profiles_in_range_def
            process_accept_profiles[OF Some])
    qed
  qed
next
  case (Cleanup now days)
  then show ?thesis
    using inv by (auto simp: profiles_in_range_def cleanup_inactive_agents_def Let_def)
qed

lemma request_confidence:
  assumes "knowledge_transfers (snd (request_knowledge_transfer now uuid self src dst cap)) k
             = Some t"
    and "\<forall>e \<in> set (learning_experiences self). unit_interval (exp_confidence e)"
    and "\<forall>k t. knowledge_transfers self k = Some t \<longrightarrow> unit_interval (confidence t)"
  shows "unit_interval (confidence t)"
proof -
  let ?rel = "filter (\<lambda>exp. exp_agent_id exp = src \<and> capability exp = cap \<and>
                          exp_success exp \<and> exp_confidence exp > 7 / 10)
                (learning_experiences self)"
  show ?thesis
  proof (cases "?rel = []")
    case True
    with assms(1,3) show ?thesis by (simp add: request_knowledge_transfer_def Let_def)
  next
    case False
    have "\<forall>x \<in> set (map exp_confidence ?rel). unit_interval x"
      using assms(2) by auto
    moreover from False have "map exp_confidence ?rel \<noteq> []" by simp
    ultimately have m: "unit_interval (sum_list (map exp_confidence ?rel)
                          / real (length (map exp_confidence ?rel)))"
      by (rule mean_unit_interval)
    show ?thesis
    proof (cases "k = uuid 0")
      case True
      with assms(1) False m show ?thesis
        by (auto simp: request_knowledge_transfer_def Let_def)
    next
      case ne: False
      with assms(1) False have "knowledge_transfers self k = Some t"
        by (auto simp: request_knowledge_transfer_def Let_def split: if_splits)
      with assms(3) show ?thesis by blast
    qed
  qed
qed

lemma request_frame:
  "agent_profiles (snd (request_knowledge_transfer now uuid self src dst cap))
     = agent_profiles self"
  "learning_experiences (snd (request_knowledge_transfer now uuid self src dst cap))
     = learning_experiences self"
  by (simp_all add: request_knowledge_transfer_def Let_def)

lemma share_confidences:
  assumes inv: "confidences_in_range self" and ok: "unit_interval (exp_confidence e)"
  shows "confidences_in_range (snd (share_learning_experience now uuid self e))"
proof -
  from inv have p: "\<forall>p \<in> snd ` set (agent_profiles self). unit_interval (average_confidence p)"
    and l: "\<forall>x \<in> set (learning_experiences self). unit_interval (exp_confidence x)"
    and k: "\<forall>k t. knowledge_transfers self k = Some t \<longrightarrow> unit_interval (confidence t)"
    by (simp_all add: confidences_in_range_def)
  have "\<forall>p \<in> snd ` set (agent_profiles (update_agent_profile now self (exp_agent_id e) e)).
          unit_interval (average_confidence p)"
    using p updated_profile_confidence[OF _ ok]
    by (rule update_agent_profile_all)
  then have p': "\<forall>p \<in> snd ` set (agent_profiles (snd (share_learning_experience now uuid self e))).
          unit_interval (average_confidence p)"
    by (simp only: share_profiles)
  have l': "\<forall>x \<in> set (learning_experiences (snd (share_learning_experience now uuid self e))).
          unit_interval (exp_confidence x)"
    using l ok deque_append_set[of 10000 "learning_experiences self" e]
    by (auto simp: share_experiences)
  have k': "\<forall>k t. knowledge_transfers (snd (share_learning_experience now uuid self e)) k = Some t
          \<longrightarrow> unit_interval (confidence t)"
    using k ok share_new[of now uuid self e] by metis
  from p' l' k' show ?thesis unfolding confidences_in_range_def by blast
qed

lemma step_confidences_in_range:
  assumes inv: "confidences_in_range self" and ok: "op_confidence_ok op"
  shows "confidences_in_range (coordinator_step self op)"
proof -
  from inv have p: "\<forall>p \<in> snd ` set (agent_profiles self). unit_interval (average_confidence p)"
    and l: "\<forall>x \<in> set (learning_experiences self). unit_interval (exp_confidence x)"
    and k: "\<forall>k t. knowledge_transfers self k = Some t \<longrightarrow> unit_interval (confidence t)"
    by (simp_all add: confidences_in_range_def)
  show ?thesis
  proof (cases op)
    case (Register now aid atype caps)
    have "\<forall>p \<in> snd ` set (AList.update aid
            \<lparr>agent_id = aid, agent_type = atype, capabilities = caps, experience_count = 0,
             success_rate = 0, average_confidence = 0, specializations = [],
             collaboration_history = [], last_active = now, reputation_score = 1 / 2\<rparr>
            (agent_profiles self)). unit_interval (average_confidence p)"
      using p by (rule update_all) (simp add: unit_interval_def)
    with l k show ?thesis
      by (simp add: Register confidences_in_range_def register_agent_def Let_def
          del: image_set)
  next
    case (Share now uuid e)
    with ok have "unit_interval (exp_confidence e)" by simp
    with inv show ?thesis unfolding Share coordinator_step.simps by (rule share_confidences)
  next
    case (Request now uuid src dst cap)
    have "\<forall>k t. knowledge_transfers
             (snd (request_knowledge_transfer now uuid self src dst cap)) k = Some t
           \<longrightarrow> unit_interval (confidence t)"
      using request_confidence[OF _ l k] by blast
    with p l show ?thesis
      unfolding Request coordinator_step.simps confidences_in_range_def request_frame
      by blast
  next
    case (Cleanup now days)
    with p l k show ?thesis
      by (auto simp: confidences_in_range_def cleanup_inactive_agents_def Let_def)
  next
    case (Process now uuid tid accept)
    show ?thesis
    proof (cases "knowledge_transfers self tid")
      case None
      then show ?thesis using inv by (simp add: Process process_knowledge_transfer_def)
    next
      case (Some t)
      from k Some have ct: "unit_interval (confidence t)" by blast
      show ?thesis
      proof (cases accept)
        case False
        with p l k ct show ?thesis
          by (simp add: Process confidences_in_range_def process_reject_frame[OF Some])
      next
        case True
        let ?t = "t\<lparr>status := Accepted\<rparr>"
        let ?self1 = "self\<lparr>knowledge_transfers := (knowledge_transfers self)(tid \<mapsto> ?t)\<rparr>"
        let ?self2 = "apply_knowledge_to_agent ?self1 ?t"
        let ?e = "transfer_experience now uuid t"
        have "\<forall>p \<in> snd ` set (agent_profiles ?self1). unit_interval (average_confidence p)"
          using p by simp
        then have p2: "\<forall>p \<in> snd ` set (agent_profiles ?self2).
                         unit_interval (average_confidence p)"
          by (rule apply_knowledge_all) simp
        have l2: "\<forall>x \<in> set (learning_experiences ?self2). unit_interval (exp_confidence x)"
          using l by (simp add: apply_knowledge_frame)
        have k2: "\<forall>k t. knowledge_transfers ?self2 k = Some t \<longrightarrow> unit_interval (confidence t)"
          using k ct by (simp add: apply_knowledge_frame)
        have inv2: "confidences_in_range ?self2"
          unfolding confidences_in_range_def using p2 l2 k2 by blast
        have "exp_confidence ?e = confidence t" by (simp add: transfer_experience_def)
        with ct have "unit_interval (exp_confidence ?e)" by simp
        with inv2 have "confidences_in_range
            (snd (share_learning_experience now (\<lambda>i. uuid (Suc i)) ?self2 ?e))"
          by (rule share_confidences)
        then show ?thesis
          using True
          by (simp add: Process process_accept_unfold[OF Some] Let_def
              confidences_in_range_def)
      qed
    qed
  qed
qed

lemma run_profiles_in_range:
  "profiles_in_range self \<Longrightarrow> profiles_in_range (run_coordinator self ops)"
  unfolding run_coordinator_def
  by (induction ops arbitrary: self) (simp_all add: step_profiles_in_range)

lemma run_confidences_in_range:
  "confidences_in_range self \<Longrightarrow> \<forall>op \<in> set ops. op_confidence_ok op \<Longrightarrow>
   confidences_in_range (run_coordinator self ops)"
  unfolding run_coordinator_def
  by (induction ops arbitrary: self) (simp_all add: step_confidences_in_range)

lemma init_in_range:
  "profiles_in_range InterAgentLearningCoordinator_init"
  "confidences_in_range InterAgentLearningCoordinator_init"
  by (simp_all add: profiles_in_range_def confidences_in_range_def
      InterAgentLearningCoordinator_init_def)

text \<open>
  \<^bold>\<open>C5 (as amended).\<close> After every run of registrations, shared experiences, transfer
  requests, processed transfers and cleanups on the initial coordinator, the success rate
  and the reputation of every registered agent lie in \<open>[0, 1]\<close>; the average confidence
  does so when the confidence of every shared experience lies in \<open>[0, 1]\<close> (it is not
  clamped). An experience raises the experience count by one; the first one sets the
  success rate and the average confidence to the observed values, a later one moves them
  by \<open>0.7 * old + 0.3 * observed\<close>; the reputation becomes
  \<open>min 1 (max 0 (old + 0.1 * confidence * (if success then 1 else -0.5)))\<close>.
\<close>

theorem rates_stay_in_range:
  "(\<forall>p \<in> snd ` set (agent_profiles (run_coordinator InterAgentLearningCoordinator_init ops)).
       0 \<le> success_rate p \<and> success_rate p \<le> 1 \<and>
       0 \<le> reputation_score p \<and> reputation_score p \<le> 1) \<and>
   ((\<forall>op \<in> set ops. op_confidence_ok op) \<longrightarrow>
    (\<forall>p \<in> snd ` set (agent_profiles (run_coordinator InterAgentLearningCoordinator_init ops)).
       0 \<le> average_confidence p \<and> average_confidence p \<le> 1)) \<and>
   experience_count (updated_profile now q e) = experience_count q + 1 \<and>
   success_rate (updated_profile now q e) =
     (if experience_count q = 0 then (if exp_success e then 1 else 0)
      else 7 / 10 * success_rate q + 3 / 10 * (if exp_success e then 1 else 0)) \<and>
   average_confidence (updated_profile now q e) =
     (if experience_count q = 0 then exp_confidence e
      else 7 / 10 * average_confidence q + 3 / 10 * exp_confidence e) \<and>
   reputation_score (updated_profile now q e) =
     min 1 (max 0 (reputation_score q
                   + 1 / 10 * (exp_confidence e * (if exp_success e then 1 else - (1 / 2)))))"
proof -
  have a: "\<forall>p \<in> snd ` set (agent_profiles
               (run_coordinator InterAgentLearningCoordinator_init ops)).
       0 \<le> success_rate p \<and> success_rate p \<le> 1 \<and>
       0 \<le> reputation_score p \<and> reputation_score p \<le> 1"
    using run_profiles_in_range[OF init_in_range(1), of ops]
    unfolding profiles_in_range_def rates_in_range_def unit_interval_def by blast
  have b: "\<forall>p \<in> snd ` set (agent_profiles
               (run_coordinator InterAgentLearningCoordinator_init ops)).
       0 \<le> average_confidence p \<and> average_confidence p \<le> 1"
    if "\<forall>op \<in> set ops. op_confidence_ok op"
    using run_confidences_in_range[OF init_in_range(2) that]
    unfolding confidences_in_range_def unit_interval_def by blast
  show ?thesis
    using a b by (simp only: updated_profile_fields) blast
qed

lemma one_share_profiles:
  "agent_profiles (run_coordinator InterAgentLearningCoordinator_init
      [Register 0 ''A'' ''TestingAgent'' [TESTING], Share 0 (ids ''s'') e])
   = (if exp_agent_id e = ''A'' then [(''A'', updated_profile 0 profile_A e)]
      else [(''A'', profile_A)])"
  by (simp add: run_coordinator_def share_profiles update_agent_profile_profiles
      register_agent_def Let_def InterAgentLearningCoordinator_init_def profile_A_def)

text \<open>
  \<^bold>\<open>C5, witness.\<close> Agent \<^verbatim>\<open>A\<close> registers and shares one successful experience at
  confidence 0.9: its success rate is 1, its average confidence 0.9 and its reputation
  0.59.
\<close>

theorem rates_stay_in_range_witness:
  "agent_profiles (run_coordinator InterAgentLearningCoordinator_init
      [Register 0 ''A'' ''TestingAgent'' [TESTING], Share 0 (ids ''s'') (testing_experience 0)])
     = [(''A'', updated_profile 0 profile_A (testing_experience 0))] \<and>
   op_confidence_ok (Share 0 (ids ''s'') (testing_experience 0)) \<and>
   success_rate (updated_profile 0 profile_A (testing_experience 0)) = 1 \<and>
   average_confidence (updated_profile 0 profile_A (testing_experience 0)) = 9 / 10 \<and>
   0 \<le> average_confidence (updated_profile 0 profile_A (testing_experience 0)) \<and>
   average_confidence (updated_profile 0 profile_A (testing_experience 0)) \<le> 1 \<and>
   reputation_score (updated_profile 0 profile_A (testing_experience 0)) = 59 / 100"
  using rates_stay_in_range[where ops = "[Register 0 ''A'' ''TestingAgent'' [TESTING],
            Share 0 (ids ''s'') (testing_experience 0)]"
          and now = 0 and q = profile_A and e = "testing_experience 0"]
  by (simp add: one_share_profiles testing_experience_fields unit_interval_def profile_A_def)

text \<open>
  \<^bold>\<open>C5, counterexample.\<close> Agent \<^verbatim>\<open>A\<close> registers and shares one experience whose
  confidence is 2: its average confidence is then 2.
\<close>

theorem average_confidence_counterexample:
  "map (average_confidence \<circ> snd)
     (agent_profiles (run_coordinator InterAgentLearningCoordinator_init
        [Register 0 ''A'' ''TestingAgent'' [TESTING], Share 0 (ids ''s'') overconfident]))
   = [2]"
  by (simp add: one_share_profiles overconfident_def testing_experience_fields
      updated_profile_def Let_def profile_A_def)

subsection \<open>The experience store\<close>

lemma deque_append_last_n:
  "length xs \<le> n \<Longrightarrow> 0 < n \<Longrightarrow> deque_append n xs x = last_n n (xs @ [x])"
  by (cases xs) (auto simp: deque_append_def last_n_def Suc_diff_le)




lemma run_shares:
  "length (learning_experiences self) \<le> 10000 \<Longrightarrow>
   learning_experiences (run_coordinator self (map share_op shares))
     = last_n 10000 (learning_experiences self @ map shared_experience shares)"
proof (induction shares arbitrary: self)
  case Nil
  then show ?case by (simp add: run_coordinator_def last_n_def)
next
  case (Cons s shares)
  obtain now uuid e where s: "s = (now, uuid, e)" by (cases s)
  let ?self = "snd (share_learning_experience now uuid self e)"
  have st: "learning_experiences ?self = last_n 10000 (learning_experiences self @ [e])"
    using Cons.prems by (simp add: share_experiences deque_append_last_n)
  then have "length (learning_experiences ?self) \<le> 10000" by (simp add: last_n_length)
  from Cons.IH[OF this]
  have "learning_experiences (run_coordinator ?self (map share_op shares))
          = last_n 10000 (last_n 10000 (learning_experiences self @ [e])
                          @ map shared_experience shares)"
    by (simp add: st)
  moreover have "share_op s = Share now uuid e" "shared_experience s = e"
    by (simp_all add: s share_op_def shared_experience_def)
  ultimately show ?case
    by (simp add: run_coordinator_def last_n_append)
qed











end
